theory Spec2Isabelle
  imports Complex_Main "HOL-Library.Log_Nat" "HOL-Library.List_Lexorder" "HOL-Library.Char_ord"
    "HOL-Library.Product_Lexorder" "HOL-Library.Multiset"
begin

section \<open>Sales analysis endpoint (src/main.py)\<close>

text \<open>
  A shallow embedding of \<^verbatim>\<open>to_float\<close>, \<^verbatim>\<open>parse_date\<close> and \<^verbatim>\<open>get_analysis\<close>.
  Python strings are \<^typ>\<open>string\<close>, \<^verbatim>\<open>None\<close> is \<^term>\<open>None\<close>, dictionaries are
  association lists in insertion order (Python dictionaries iterate in insertion order and
  \<^verbatim>\<open>sorted\<close> is stable, so the order is observable), and every exception the code can
  raise is a value of \<open>error\<close>.
\<close>

subsection \<open>Exceptions\<close>

text \<open>
  The exceptions the code can raise: the \<^verbatim>\<open>HTTPException\<close> of the framework with its
  status code and detail, an exception of \<^verbatim>\<open>requests\<close>, and four builtin ones.
\<close>

datatype error =
  HTTPException int string | RequestException | ValueError | KeyError | ZeroDivisionError
  | OverflowError

definition bind_err :: "error + 'a \<Rightarrow> ('a \<Rightarrow> error + 'b) \<Rightarrow> error + 'b" where
  "bind_err m f = (case m of Inl e \<Rightarrow> Inl e | Inr x \<Rightarrow> f x)"

subsection \<open>Binary floating point\<close>

text \<open>
  A Python \<^verbatim>\<open>float\<close> is an IEEE-754 double: a finite number, an infinity or a NaN. A
  finite double is modelled as the rational number it denotes; the model does not tell
  \<^verbatim>\<open>-0.0\<close> from \<^verbatim>\<open>0.0\<close>, which compare equal.
\<close>

datatype pyfloat = Fin rat | PInf | NInf | NaN

definition round_half_even :: "rat \<Rightarrow> int" where
  "round_half_even y =
     (let f = \<lfloor>y\<rfloor>; d = y - of_int f
      in if d < 1 / 2 then f else if 1 / 2 < d then f + 1 else if even f then f else f + 1)"

text \<open>
  The double nearest to a rational number, ties to even. With \<open>2 ^ e \<le> \<bar>x\<bar> < 2 ^ (e + 1)\<close>
  the doubles around \<open>x\<close> are the multiples \<open>n * 2 ^ (e - 52)\<close>; below \<open>2 ^ - 1022\<close>
  (the subnormal range) they are the multiples of \<open>2 ^ - 1074\<close>. A result of
  \<open>2 ^ 1024\<close> or more is an infinity: that is an exponent of 1024 or more, or the
  exponent 1023 with \<open>n\<close> rounded up to \<open>2 ^ 53\<close>.
\<close>

definition round_double :: "rat \<Rightarrow> pyfloat" where
  "round_double x =
     (if x = 0 then Fin 0
      else let (p, q) = quotient_of \<bar>x\<bar>;
               e0 = bitlen p - bitlen q;
               e = max (if 2 powi e0 \<le> \<bar>x\<bar> then e0 else e0 - 1) (- 1022);
               u = 2 powi (e - 52);
               n = round_half_even (\<bar>x\<bar> / u)
           in if 1024 \<le> e \<or> (e = 1023 \<and> 2 ^ 53 \<le> n)
              then (if 0 < x then PInf else NInf)
              else Fin (sgn x * of_int n * u))"

definition fneg :: "pyfloat \<Rightarrow> pyfloat" where
  "fneg x = (case x of Fin a \<Rightarrow> Fin (- a) | PInf \<Rightarrow> NInf | NInf \<Rightarrow> PInf | NaN \<Rightarrow> NaN)"

text \<open>The sign of a float that is not zero and not a NaN.\<close>

definition fpos :: "pyfloat \<Rightarrow> bool" where
  "fpos x = (case x of Fin a \<Rightarrow> 0 < a | PInf \<Rightarrow> True | NInf \<Rightarrow> False | NaN \<Rightarrow> False)"

text \<open>\<^verbatim>\<open>x > 0\<close>: false for a NaN.\<close>

definition fgt0 :: "pyfloat \<Rightarrow> bool" where
  "fgt0 x = fpos x"

text \<open>
  Float addition, subtraction and multiplication never raise: a result out of range is an
  infinity, and an undefined one (\<^verbatim>\<open>inf - inf\<close>, \<^verbatim>\<open>inf * 0\<close>) is a NaN.
\<close>

fun fadd :: "pyfloat \<Rightarrow> pyfloat \<Rightarrow> pyfloat" where
  "fadd (Fin a) (Fin b) = round_double (a + b)"
| "fadd NaN y = NaN"
| "fadd x NaN = NaN"
| "fadd PInf NInf = NaN"
| "fadd NInf PInf = NaN"
| "fadd PInf y = PInf"
| "fadd x PInf = PInf"
| "fadd NInf y = NInf"
| "fadd x NInf = NInf"

definition fsub :: "pyfloat \<Rightarrow> pyfloat \<Rightarrow> pyfloat" where
  "fsub a b = fadd a (fneg b)"

fun fmul :: "pyfloat \<Rightarrow> pyfloat \<Rightarrow> pyfloat" where
  "fmul (Fin a) (Fin b) = round_double (a * b)"
| "fmul NaN y = NaN"
| "fmul x NaN = NaN"
| "fmul x y =
     (if x = Fin 0 \<or> y = Fin 0 then NaN else if fpos x = fpos y then PInf else NInf)"

text \<open>The quotient of two floats, for a divisor that is not zero.\<close>

fun fquot :: "pyfloat \<Rightarrow> pyfloat \<Rightarrow> pyfloat" where
  "fquot (Fin a) (Fin b) = round_double (a / b)"
| "fquot NaN y = NaN"
| "fquot x NaN = NaN"
| "fquot (Fin a) y = Fin 0"
| "fquot x (Fin b) = (if fpos x = (0 < b) then PInf else NInf)"
| "fquot x y = NaN"

text \<open>Dividing by zero raises \<^verbatim>\<open>ZeroDivisionError\<close>, for floats and for integers.\<close>

definition fdiv :: "pyfloat \<Rightarrow> pyfloat \<Rightarrow> error + pyfloat" where
  "fdiv a b = (if b = Fin 0 then Inl ZeroDivisionError else Inr (fquot a b))"

text \<open>
  The quotient \<^verbatim>\<open>n / d\<close> of two integers is the nearest double of the exact quotient, and
  raises \<^verbatim>\<open>OverflowError\<close> when that is out of range.
\<close>

definition int_truediv :: "int \<Rightarrow> int \<Rightarrow> error + pyfloat" where
  "int_truediv n d =
     (if d = 0 then Inl ZeroDivisionError
      else (case round_double (of_int n / of_int d) of
              Fin q \<Rightarrow> Inr (Fin q)
            | _ \<Rightarrow> Inl OverflowError))"

text \<open>
  \<^verbatim>\<open>round(x, 2)\<close> on a float: the exact value is rounded to two decimals, ties to even,
  and the decimal result is converted back to the nearest double. Infinities and NaN are
  returned as they are.
\<close>

definition py_round2 :: "pyfloat \<Rightarrow> pyfloat" where
  "py_round2 x =
     (case x of
        Fin a \<Rightarrow> round_double (of_int (round_half_even (a * 100)) / 100)
      | _ \<Rightarrow> x)"

text \<open>
  \<^verbatim>\<open>int(x)\<close> on a float truncates towards zero; it raises \<^verbatim>\<open>OverflowError\<close> for an
  infinity and \<^verbatim>\<open>ValueError\<close> for a NaN.
\<close>

definition py_int :: "pyfloat \<Rightarrow> error + int" where
  "py_int x =
     (case x of
        Fin a \<Rightarrow> Inr (if 0 \<le> a then \<lfloor>a\<rfloor> else \<lceil>a\<rceil>)
      | NaN \<Rightarrow> Inl ValueError
      | _ \<Rightarrow> Inl OverflowError)"

subsection \<open>Characters and strings\<close>

definition is_digit :: "char \<Rightarrow> bool" where
  "is_digit c = (c \<in> set ''0123456789'')"

definition digit_val :: "char \<Rightarrow> int" where
  "digit_val c = of_char c - 48"

definition int_of_digits :: "string \<Rightarrow> int" where
  "int_of_digits s = foldl (\<lambda>n c. 10 * n + digit_val c) 0 s"

text \<open>
  The characters \<^verbatim>\<open>str.strip()\<close> removes, among the first 256 code points: tab, line
  feed, vertical tab, form feed, carriage return, the separators 28 to 31, space, next line
  (133) and no-break space (160).
\<close>

definition is_space :: "char \<Rightarrow> bool" where
  "is_space c = (let n = (of_char c :: int) in (9 \<le> n \<and> n \<le> 13) \<or> (28 \<le> n \<and> n \<le> 32) \<or> n = 133 \<or> n = 160)"

definition strip :: "string \<Rightarrow> string" where
  "strip s = rev (dropWhile is_space (rev (dropWhile is_space s)))"

subsection \<open>to_float\<close>

text \<open>
  \<^verbatim>\<open>CURRENCY_RE = re.compile(r"[^0-9.\-]")\<close>: the characters the substitution keeps are
  the ten digits, the point and the minus sign, wherever they stand.
\<close>

definition currency_keep :: "char \<Rightarrow> bool" where
  "currency_keep c = (is_digit c \<or> c = CHR ''.'' \<or> c = CHR ''-'')"

definition currency_sub :: "string \<Rightarrow> string" where
  "currency_sub s = filter currency_keep s"

text \<open>
  The builtin \<^verbatim>\<open>float(s)\<close> on a string over the alphabet that \<open>currency_sub\<close> leaves:
  an optional minus sign, then digits with at most one point and at least one digit. The
  value is the nearest double, an infinity when the number is too large. Anything else
  raises \<^verbatim>\<open>ValueError\<close> (\<open>None\<close>).
\<close>

definition unsigned_literal :: "string \<Rightarrow> rat option" where
  "unsigned_literal s =
     (let ip = takeWhile is_digit s; rest = dropWhile is_digit s
      in case rest of
           [] \<Rightarrow> (if ip = [] then None else Some (of_int (int_of_digits ip)))
         | c # fp \<Rightarrow>
             (if c = CHR ''.'' \<and> list_all is_digit fp \<and> (ip \<noteq> [] \<or> fp \<noteq> [])
              then Some (of_int (int_of_digits (ip @ fp)) / 10 ^ length fp)
              else None))"

definition py_float :: "string \<Rightarrow> pyfloat option" where
  "py_float s =
     (case s of
        [] \<Rightarrow> None
      | c # t \<Rightarrow>
          (if c = CHR ''-'' then map_option (\<lambda>x. round_double (- x)) (unsigned_literal t)
           else map_option round_double (unsigned_literal s)))"

text \<open>
  The argument is \<open>None\<close> for Python's \<^verbatim>\<open>None\<close>. The \<^verbatim>\<open>isinstance(val, (int, float))\<close>
  branch is not modelled: every value comes out of the CSV reader, which yields strings
  or \<^verbatim>\<open>None\<close>.
\<close>

definition to_float :: "string option \<Rightarrow> pyfloat" where
  "to_float val =
     (case val of
        None \<Rightarrow> Fin 0
      | Some v \<Rightarrow>
          (let s = strip v
           in if s = [] then Fin 0
              else let s' = currency_sub s
                   in (case (if s' \<noteq> [] then py_float s' else Some (Fin 0)) of
                         Some x \<Rightarrow> x
                       | None \<Rightarrow> Fin 0)))"

subsection \<open>Dates\<close>

text \<open>
  Of a \<^verbatim>\<open>datetime\<close> the program only reads the year and the month; the record keeps
  the calendar date. A \<^verbatim>\<open>datetime\<close> object always holds a date of the proleptic
  Gregorian calendar with a year from 1 to 9999: its constructor raises \<^verbatim>\<open>ValueError\<close>
  otherwise.
\<close>

record datetime =
  year :: int
  month :: int
  day :: int

definition is_leap :: "int \<Rightarrow> bool" where
  "is_leap y = (y mod 4 = 0 \<and> (y mod 100 \<noteq> 0 \<or> y mod 400 = 0))"

definition days_in_month :: "int \<Rightarrow> int \<Rightarrow> int" where
  "days_in_month y m =
     (if m = 2 then (if is_leap y then 29 else 28)
      else if m = 4 \<or> m = 6 \<or> m = 9 \<or> m = 11 then 30 else 31)"

definition valid_date :: "datetime \<Rightarrow> bool" where
  "valid_date d =
     (1 \<le> year d \<and> year d \<le> 9999 \<and> 1 \<le> month d \<and> month d \<le> 12 \<and>
      1 \<le> day d \<and> day d \<le> days_in_month (year d) (month d))"

text \<open>
  \<^verbatim>\<open>datetime.strptime\<close> turns the format into a regular expression, matches it at the
  start of the string (the first match in backtracking order), raises \<^verbatim>\<open>ValueError\<close>
  when there is no match or when the match does not reach the end of the string, and then
  builds the date, which raises \<^verbatim>\<open>ValueError\<close> for a day the month does not have.
  The expressions of the three directives the program uses:
  \<^verbatim>\<open>%Y\<close> is \<^verbatim>\<open>\d\d\d\d\<close>, \<^verbatim>\<open>%m\<close> is \<^verbatim>\<open>1[0-2]|0[1-9]|[1-9]\<close> and
  \<^verbatim>\<open>%d\<close> is \<^verbatim>\<open>3[0-1]|[1-2]\d|0[1-9]|[1-9]| [1-9]\<close>.
  \<open>alts\<close> lists the ways one directive matches a prefix, in the order of its
  alternatives, each with the value read and the rest of the string.
\<close>

datatype directive = DY | Dm | Dd | Lit char

definition is_digit19 :: "char \<Rightarrow> bool" where
  "is_digit19 c = (c \<in> set ''123456789'')"

definition two_chars :: "(char \<Rightarrow> bool) \<Rightarrow> (char \<Rightarrow> bool) \<Rightarrow> string \<Rightarrow> (int \<times> string) list" where
  "two_chars p1 p2 s =
     (case s of
        c1 # c2 # r \<Rightarrow> (if p1 c1 \<and> p2 c2 then [(10 * digit_val c1 + digit_val c2, r)] else [])
      | _ \<Rightarrow> [])"

definition one_char :: "(char \<Rightarrow> bool) \<Rightarrow> string \<Rightarrow> (int \<times> string) list" where
  "one_char p s = (case s of c # r \<Rightarrow> (if p c then [(digit_val c, r)] else []) | [] \<Rightarrow> [])"

definition space_digit :: "string \<Rightarrow> (int \<times> string) list" where
  "space_digit s =
     (case s of
        c1 # c2 # r \<Rightarrow> (if c1 = CHR '' '' \<and> is_digit19 c2 then [(digit_val c2, r)] else [])
      | _ \<Rightarrow> [])"

fun alts :: "directive \<Rightarrow> string \<Rightarrow> (int \<times> string) list" where
  "alts DY s =
     (if 4 \<le> length s \<and> list_all is_digit (take 4 s) then [(int_of_digits (take 4 s), drop 4 s)]
      else [])"
| "alts Dm s =
     two_chars (\<lambda>c. c = CHR ''1'') (\<lambda>c. c \<in> set ''012'') s
     @ two_chars (\<lambda>c. c = CHR ''0'') is_digit19 s
     @ one_char is_digit19 s"
| "alts Dd s =
     two_chars (\<lambda>c. c = CHR ''3'') (\<lambda>c. c \<in> set ''01'') s
     @ two_chars (\<lambda>c. c \<in> set ''12'') is_digit s
     @ two_chars (\<lambda>c. c = CHR ''0'') is_digit19 s
     @ one_char is_digit19 s
     @ space_digit s"
| "alts (Lit c) s = (case s of c' # r \<Rightarrow> (if c' = c then [(0, r)] else []) | [] \<Rightarrow> [])"

text \<open>All matches of a format at the start of a string, in backtracking order.\<close>

fun re_match :: "directive list \<Rightarrow> string \<Rightarrow> ((directive \<times> int) list \<times> string) list" where
  "re_match [] s = [([], s)]"
| "re_match (d # ds) s =
     concat (map (\<lambda>(v, r). map (\<lambda>(fs, r'). ((d, v) # fs, r')) (re_match ds r)) (alts d s))"

text \<open>A field the format does not set keeps its default: year 1900, month 1, day 1.\<close>

definition field :: "directive \<Rightarrow> int \<Rightarrow> (directive \<times> int) list \<Rightarrow> int" where
  "field d dflt fs = (case map_of fs d of Some v \<Rightarrow> v | None \<Rightarrow> dflt)"

definition strptime :: "string \<Rightarrow> directive list \<Rightarrow> datetime option" where
  "strptime s fmt =
     (case re_match fmt s of
        [] \<Rightarrow> None
      | (fs, rest) # _ \<Rightarrow>
          (if rest \<noteq> [] then None
           else let d = \<lparr>year = field DY 1900 fs, month = field Dm 1 fs, day = field Dd 1 fs\<rparr>
                in if valid_date d then Some d else None))"

definition fmt_Y_m_d :: "directive list" where
  "fmt_Y_m_d = [DY, Lit CHR ''-'', Dm, Lit CHR ''-'', Dd]"

definition fmt_d_m_Y :: "directive list" where
  "fmt_d_m_Y = [Dd, Lit CHR ''/'', Dm, Lit CHR ''/'', DY]"

definition fmt_m_d_Y :: "directive list" where
  "fmt_m_d_Y = [Dm, Lit CHR ''/'', Dd, Lit CHR ''/'', DY]"

definition fmt_Y_m_d_slash :: "directive list" where
  "fmt_Y_m_d_slash = [DY, Lit CHR ''/'', Dm, Lit CHR ''/'', Dd]"

subsection \<open>parse_date\<close>

text \<open>The loop over the formats: the first one that parses wins.\<close>

fun try_formats :: "directive list list \<Rightarrow> string \<Rightarrow> datetime option" where
  "try_formats [] s = None"
| "try_formats (fmt # fmts) s =
     (case strptime s fmt of Some d \<Rightarrow> Some d | None \<Rightarrow> try_formats fmts s)"

definition parse_date :: "string option \<Rightarrow> datetime option" where
  "parse_date val =
     (case val of
        None \<Rightarrow> None
      | Some v \<Rightarrow>
          (if v = [] then None
           else try_formats [fmt_Y_m_d, fmt_d_m_Y, fmt_m_d_Y, fmt_Y_m_d_slash] (strip v)))"

text \<open>
  \<^verbatim>\<open>datetime.fromisoformat\<close> belongs to the standard library and the strings it accepts
  depend on the version of Python. It is a parameter of the model: \<open>isof s\<close> is the
  date of the result, or \<open>None\<close> when the call raises. A result is always a valid
  date.
\<close>

type_synonym iso_parser = "string \<Rightarrow> datetime option"

definition fromisoformat :: "iso_parser \<Rightarrow> string \<Rightarrow> datetime option" where
  "fromisoformat isof s =
     (case isof s of Some d \<Rightarrow> (if valid_date d then Some d else None) | None \<Rightarrow> None)"

text \<open>
  An instance of the parameter: the calendar date \<^verbatim>\<open>YYYY-MM-DD\<close> with two-digit month
  and day and nothing after it, which every version of \<^verbatim>\<open>fromisoformat\<close> accepts.
\<close>

definition iso_calendar_date :: iso_parser where
  "iso_calendar_date s =
     (if length s = 10 \<and> list_all is_digit (take 4 s) \<and> s ! 4 = CHR ''-''
         \<and> list_all is_digit (take 2 (drop 5 s)) \<and> s ! 7 = CHR ''-''
         \<and> list_all is_digit (drop 8 s)
      then Some \<lparr>year = int_of_digits (take 4 s), month = int_of_digits (take 2 (drop 5 s)),
                 day = int_of_digits (drop 8 s)\<rparr>
      else None)"

subsection \<open>Rows and dictionaries\<close>

text \<open>
  A row of \<^verbatim>\<open>csv.DictReader\<close> maps a column name to its text, or to \<^verbatim>\<open>None\<close> when
  the line is shorter than the header. \<open>r k = None\<close> says that the key is missing,
  \<open>r k = Some None\<close> that its value is \<^verbatim>\<open>None\<close>.
\<close>

type_synonym row = "string \<Rightarrow> string option option"

definition row_get :: "row \<Rightarrow> string \<Rightarrow> string option \<Rightarrow> string option" where
  "row_get r k dflt = (case r k of None \<Rightarrow> dflt | Some v \<Rightarrow> v)"

definition row_of :: "(string \<times> string) list \<Rightarrow> row" where
  "row_of kvs = map_of (map (\<lambda>(k, v). (k, Some v)) kvs)"

text \<open>
  A Python dictionary as an association list without duplicate keys, in insertion order:
  assigning to a key that is present keeps its place, a new key goes to the end.
\<close>

fun dict_set :: "('k \<times> 'v) list \<Rightarrow> 'k \<Rightarrow> 'v \<Rightarrow> ('k \<times> 'v) list" where
  "dict_set [] k v = [(k, v)]"
| "dict_set ((k', v') # kvs) k v =
     (if k' = k then (k, v) # kvs else (k', v') # dict_set kvs k v)"

definition dict_get :: "('k \<times> 'v) list \<Rightarrow> 'k \<Rightarrow> 'v \<Rightarrow> 'v" where
  "dict_get kvs k dflt = (case map_of kvs k of Some v \<Rightarrow> v | None \<Rightarrow> dflt)"

text \<open>\<^verbatim>\<open>d[k] = d.get(k, zero) + x\<close>, for the addition \<open>add\<close> of the value type.\<close>

definition dict_add :: "('v \<Rightarrow> 'v \<Rightarrow> 'v) \<Rightarrow> 'v \<Rightarrow> ('k \<times> 'v) list \<Rightarrow> 'k \<Rightarrow> 'v \<Rightarrow> ('k \<times> 'v) list" where
  "dict_add add zero kvs k x = dict_set kvs k (add (dict_get kvs k zero) x)"

subsection \<open>The fields of a row\<close>

text \<open>\<^verbatim>\<open>(rrow.get(k) or "Unknown").strip() or "Unknown"\<close>\<close>

definition category :: "row \<Rightarrow> string \<Rightarrow> string" where
  "category r k =
     (let t = (case row_get r k None of None \<Rightarrow> ''Unknown''
               | Some v \<Rightarrow> (if v = [] then ''Unknown'' else v));
          s = strip t
      in if s = [] then ''Unknown'' else s)"

definition amount_of :: "row \<Rightarrow> pyfloat" where
  "amount_of r = to_float (row_get r ''Amount'' (Some ''0''))"

text \<open>\<^verbatim>\<open>int(to_float(rrow.get("Quantity", "0")))\<close>, which raises for an infinity.\<close>

definition qty_of :: "row \<Rightarrow> error + int" where
  "qty_of r = py_int (to_float (row_get r ''Quantity'' (Some ''0'')))"

definition total_orders_of :: "row \<Rightarrow> pyfloat" where
  "total_orders_of r = to_float (row_get r ''TotalOrders'' (Some ''0''))"

definition country_of :: "row \<Rightarrow> string" where
  "country_of r = category r ''Country''"

definition payment_of :: "row \<Rightarrow> string" where
  "payment_of r = category r ''PaymentMode''"

text \<open>
  The date of a row: \<^verbatim>\<open>parse_date\<close> first and, when it returns \<^verbatim>\<open>None\<close>,
  \<^verbatim>\<open>datetime.fromisoformat\<close> on the stripped text, whose exception gives \<^verbatim>\<open>None\<close>.
\<close>

definition invoice_date :: "iso_parser \<Rightarrow> row \<Rightarrow> datetime option" where
  "invoice_date isof r =
     (case parse_date (row_get r ''InvoiceDate'' (Some [])) of
        Some d \<Rightarrow> Some d
      | None \<Rightarrow>
          fromisoformat isof
            (strip (case row_get r ''InvoiceDate'' (Some []) of None \<Rightarrow> [] | Some t \<Rightarrow> t)))"

definition digit_char :: "int \<Rightarrow> char" where
  "digit_char n = char_of (48 + n)"

text \<open>
  \<^verbatim>\<open>%Y\<close> of \<^verbatim>\<open>strftime\<close> is the year as the C library writes it: in decimal and
  without padding (glibc), so a year below 1000 has fewer than four digits. The years of
  a \<^verbatim>\<open>datetime\<close> are 1 to 9999.
\<close>

definition year_digits :: "int \<Rightarrow> string" where
  "year_digits y =
     (if y < 10 then [digit_char y]
      else if y < 100 then [digit_char (y div 10), digit_char (y mod 10)]
      else if y < 1000 then
        [digit_char (y div 100), digit_char (y div 10 mod 10), digit_char (y mod 10)]
      else [digit_char (y div 1000), digit_char (y div 100 mod 10),
            digit_char (y div 10 mod 10), digit_char (y mod 10)])"

text \<open>\<^verbatim>\<open>d.strftime("%Y-%m")\<close>: the year, a hyphen, the month on two digits.\<close>

definition strftime_Ym :: "datetime \<Rightarrow> string" where
  "strftime_Ym d =
     year_digits (year d) @ [CHR ''-'', digit_char (month d div 10), digit_char (month d mod 10)]"

definition month_key :: "iso_parser \<Rightarrow> row \<Rightarrow> string" where
  "month_key isof r =
     (case invoice_date isof r of Some d \<Rightarrow> strftime_Ym d | None \<Rightarrow> ''unknown'')"

subsection \<open>The aggregation loop\<close>

record agg =
  total_revenue :: pyfloat
  qty_per_month :: "(string \<times> int) list"
  revenue_per_month :: "(string \<times> pyfloat) list"
  engagement_per_month :: "(string \<times> pyfloat) list"
  country_sales :: "(string \<times> pyfloat) list"
  payment_counts :: "(string \<times> int) list"
  months_set :: "string set"

definition agg_init :: agg where
  "agg_init =
     \<lparr>total_revenue = Fin 0, qty_per_month = [], revenue_per_month = [],
      engagement_per_month = [], country_sales = [], payment_counts = [], months_set = {}\<rparr>"

text \<open>The assignments of the loop body, once the quantity of the row is known.\<close>

definition accumulate_row :: "iso_parser \<Rightarrow> agg \<Rightarrow> row \<Rightarrow> int \<Rightarrow> agg" where
  "accumulate_row isof a r qty =
     (let amount = amount_of r;
          total_orders = total_orders_of r;
          country = country_of r;
          payment = payment_of r;
          mkey = month_key isof r
      in \<lparr>total_revenue = fadd (total_revenue a) amount,
          qty_per_month = dict_add (+) 0 (qty_per_month a) mkey qty,
          revenue_per_month = dict_add fadd (Fin 0) (revenue_per_month a) mkey amount,
          engagement_per_month =
            dict_add fadd (Fin 0) (engagement_per_month a) mkey total_orders,
          country_sales = dict_add fadd (Fin 0) (country_sales a) country amount,
          payment_counts = dict_add (+) 0 (payment_counts a) payment 1,
          months_set = insert mkey (months_set a)\<rparr>)"

text \<open>
  The body of \<^verbatim>\<open>for rrow in rows\<close>. Reading the quantity is the one step that can
  raise.
\<close>

definition add_row :: "iso_parser \<Rightarrow> agg \<Rightarrow> row \<Rightarrow> error + agg" where
  "add_row isof a r = bind_err (qty_of r) (\<lambda>qty. Inr (accumulate_row isof a r qty))"

fun aggregate_from :: "iso_parser \<Rightarrow> agg \<Rightarrow> row list \<Rightarrow> error + agg" where
  "aggregate_from isof a [] = Inr a"
| "aggregate_from isof a (r # rows) =
     bind_err (add_row isof a r) (\<lambda>a'. aggregate_from isof a' rows)"

definition aggregate :: "iso_parser \<Rightarrow> row list \<Rightarrow> error + agg" where
  "aggregate isof rows = aggregate_from isof agg_init rows"

subsection \<open>Months, growth and averages\<close>

definition valid_months :: "agg \<Rightarrow> string list" where
  "valid_months a = sorted_list_of_set (Set.filter (\<lambda>m. m \<noteq> ''unknown'') (months_set a))"

definition now_month :: "agg \<Rightarrow> string option" where
  "now_month a = (let vm = valid_months a in if vm \<noteq> [] then Some (last vm) else None)"

definition prev_month :: "agg \<Rightarrow> string option" where
  "prev_month a =
     (let vm = valid_months a in if 2 \<le> length vm then Some (vm ! (length vm - 2)) else None)"

text \<open>\<^verbatim>\<open>m or ""\<close> for an optional string.\<close>

definition or_empty :: "string option \<Rightarrow> string" where
  "or_empty m = (case m of None \<Rightarrow> [] | Some s \<Rightarrow> s)"

definition this_month_revenue :: "agg \<Rightarrow> pyfloat" where
  "this_month_revenue a = dict_get (revenue_per_month a) (or_empty (now_month a)) (Fin 0)"

definition last_month_revenue :: "agg \<Rightarrow> pyfloat" where
  "last_month_revenue a = dict_get (revenue_per_month a) (or_empty (prev_month a)) (Fin 0)"

definition avg_growth :: "agg \<Rightarrow> error + pyfloat" where
  "avg_growth a =
     (if fgt0 (last_month_revenue a)
      then bind_err (fdiv (fsub (this_month_revenue a) (last_month_revenue a)) (last_month_revenue a))
             (\<lambda>q. Inr (fmul q (Fin 100)))
      else Inr (Fin 0))"

definition month_count :: "agg \<Rightarrow> int" where
  "month_count a = max 1 (int (length (valid_months a)))"

definition total_qty :: "agg \<Rightarrow> int" where
  "total_qty a = sum_list (map (\<lambda>m. dict_get (qty_per_month a) m 0) (valid_months a))"

definition avg_qty_per_month :: "agg \<Rightarrow> error + pyfloat" where
  "avg_qty_per_month a =
     (if 0 < month_count a then int_truediv (total_qty a) (month_count a) else Inr (Fin 0))"

subsection \<open>The response\<close>

text \<open>
  An entry of a trend or of a breakdown is the pair of its label (\<^verbatim>\<open>month\<close> or
  \<^verbatim>\<open>name\<close>) and its \<^verbatim>\<open>value\<close>.
\<close>

record kpis =
  totalRevenue :: pyfloat
  thisMonthRevenue :: pyfloat
  avgGrowth :: pyfloat
  avgQtyPerMonth :: pyfloat

record response =
  source :: string
  kpis :: kpis
  revenueTrend :: "(string \<times> pyfloat) list"
  engagementTrend :: "(string \<times> pyfloat) list"
  countrySales :: "(string \<times> pyfloat) list"
  paymentDistribution :: "(string \<times> int) list"

definition month_names :: "string list" where
  "month_names =
     [''Jan'', ''Feb'', ''Mar'', ''Apr'', ''May'', ''Jun'',
      ''Jul'', ''Aug'', ''Sep'', ''Oct'', ''Nov'', ''Dec'']"

text \<open>\<^verbatim>\<open>dt.strftime("%b")\<close>\<close>

definition strftime_b :: "datetime \<Rightarrow> string" where
  "strftime_b dt = month_names ! nat (month dt - 1)"

text \<open>The call of \<^verbatim>\<open>strptime\<close> is not guarded: its \<^verbatim>\<open>ValueError\<close> would leave the endpoint.\<close>

definition month_label :: "string \<Rightarrow> error + string" where
  "month_label mkey =
     (if mkey \<noteq> [] \<and> length mkey = 7 \<and> mkey \<noteq> ''unknown''
      then (case strptime (mkey @ ''-01'') fmt_Y_m_d of
              Some dt \<Rightarrow> Inr (strftime_b dt)
            | None \<Rightarrow> Inl ValueError)
      else Inr ''N/A'')"

text \<open>A list comprehension whose element expression can raise.\<close>

fun collect :: "('a \<Rightarrow> error + 'b) \<Rightarrow> 'a list \<Rightarrow> error + 'b list" where
  "collect f [] = Inr []"
| "collect f (x # xs) = bind_err (f x) (\<lambda>y. bind_err (collect f xs) (\<lambda>ys. Inr (y # ys)))"

text \<open>\<^verbatim>\<open>xs[-n:]\<close>\<close>

definition last_n :: "nat \<Rightarrow> 'a list \<Rightarrow> 'a list" where
  "last_n n xs = drop (length xs - n) xs"

text \<open>\<^verbatim>\<open>d[k]\<close> raises \<^verbatim>\<open>KeyError\<close> for a key that is missing.\<close>

definition dict_item :: "('k \<times> 'v) list \<Rightarrow> 'k \<Rightarrow> error + 'v" where
  "dict_item kvs k = (case map_of kvs k of None \<Rightarrow> Inl KeyError | Some v \<Rightarrow> Inr v)"

definition trend_point :: "agg \<Rightarrow> string \<Rightarrow> error + string \<times> pyfloat" where
  "trend_point a m =
     bind_err (month_label m) (\<lambda>l.
     bind_err (dict_item (revenue_per_month a) m) (\<lambda>v. Inr (l, py_round2 v)))"

definition engagement_point :: "agg \<Rightarrow> string \<Rightarrow> error + string \<times> pyfloat" where
  "engagement_point a m =
     bind_err (month_label m)
       (\<lambda>l. Inr (l, py_round2 (dict_get (engagement_per_month a) m (Fin 0))))"

text \<open>
  \<^verbatim>\<open>sorted(d.items(), key=lambda x: -x[1])\<close>: the items in insertion order, sorted by
  the negated value with a stable sort. Floats that are not NaN are linearly ordered:
  \<open>rank\<close> embeds them in the lexicographic order of pairs. A NaN compares false with
  everything; the order \<^verbatim>\<open>sorted\<close> leaves then depends on its algorithm, which belongs
  to the library, and is a parameter of the model: \<open>srt kvs\<close> is the result of
  \<^verbatim>\<open>sorted\<close> for items \<open>kvs\<close> with a NaN among their values.
\<close>

definition rank :: "pyfloat \<Rightarrow> int \<times> rat" where
  "rank x = (case x of Fin a \<Rightarrow> (0, a) | PInf \<Rightarrow> (1, 0) | NInf \<Rightarrow> (- 1, 0) | NaN \<Rightarrow> (2, 0))"

type_synonym unordered_sort = "(string \<times> pyfloat) list \<Rightarrow> (string \<times> pyfloat) list"

definition sorted_desc :: "unordered_sort \<Rightarrow> (string \<times> pyfloat) list \<Rightarrow> (string \<times> pyfloat) list" where
  "sorted_desc srt kvs =
     (if list_ex (\<lambda>x. snd x = NaN) kvs then srt kvs
      else sort_key (\<lambda>x. rank (fneg (snd x))) kvs)"

definition sorted_desc_int :: "(string \<times> int) list \<Rightarrow> (string \<times> int) list" where
  "sorted_desc_int kvs = sort_key (\<lambda>x. - snd x) kvs"

definition country_list :: "unordered_sort \<Rightarrow> agg \<Rightarrow> (string \<times> pyfloat) list" where
  "country_list srt a = map (\<lambda>(k, v). (k, py_round2 v)) (sorted_desc srt (country_sales a))"

definition payment_list :: "agg \<Rightarrow> (string \<times> int) list" where
  "payment_list a = map (\<lambda>(k, v). (k, v)) (sorted_desc_int (payment_counts a))"

text \<open>Everything \<^verbatim>\<open>get_analysis\<close> does once the rows are there and not empty.\<close>

definition analysis :: "unordered_sort \<Rightarrow> iso_parser \<Rightarrow> row list \<Rightarrow> error + response" where
  "analysis srt isof rows =
     bind_err (aggregate isof rows) (\<lambda>a.
     bind_err (avg_growth a) (\<lambda>growth.
     bind_err (avg_qty_per_month a) (\<lambda>avg_qty.
     bind_err (collect (trend_point a) (last_n 4 (valid_months a))) (\<lambda>trend.
     bind_err (collect (engagement_point a) (last_n 3 (valid_months a))) (\<lambda>engagement.
       Inr \<lparr>source = ''sheet'',
            kpis = \<lparr>totalRevenue = py_round2 (total_revenue a),
                     thisMonthRevenue = py_round2 (this_month_revenue a),
                     avgGrowth = py_round2 growth,
                     avgQtyPerMonth = py_round2 avg_qty\<rparr>,
            revenueTrend = trend,
            engagementTrend = engagement,
            countrySales = country_list srt a,
            paymentDistribution = payment_list a\<rparr>)))))"

subsection \<open>The endpoint\<close>

text \<open>
  What \<^verbatim>\<open>requests.get(CSV_URL, timeout=10)\<close> does: it raises (timeout, connection
  error), or it returns a response with a status code and a text.
\<close>

datatype fetch = Raises | Response int string

text \<open>
  The example dataset of the \<^verbatim>\<open>except\<close> branch. Its numbers are integers, except
  \<^verbatim>\<open>10.4\<close>, which is the double nearest to 10.4.
\<close>

definition fallback :: response where
  "fallback =
     \<lparr>source = ''fallback'',
      kpis = \<lparr>totalRevenue = Fin 123456, thisMonthRevenue = Fin 8940,
               avgGrowth = round_double (104 / 10), avgQtyPerMonth = Fin 245\<rparr>,
      revenueTrend =
        [(''Jan'', Fin 22000), (''Feb'', Fin 26000), (''Mar'', Fin 31000), (''Apr'', Fin 28000)],
      engagementTrend = [(''Jan'', Fin 18000), (''Feb'', Fin 21500), (''Mar'', Fin 29000)],
      countrySales =
        [(''Country A'', Fin 40), (''Country B'', Fin 25), (''Country C'', Fin 15),
         (''Country D'', Fin 10), (''Country E'', Fin 10)],
      paymentDistribution =
        [(''UPI / Digital Wallets'', 70), (''Credit Card'', 15), (''Debit Card'', 10),
         (''Cash'', 5)]\<rparr>"

text \<open>The body of the \<^verbatim>\<open>try\<close> block: the text of the sheet, or the exception raised.\<close>

definition fetch_content :: "fetch \<Rightarrow> error + string" where
  "fetch_content f =
     (case f of
        Raises \<Rightarrow> Inl RequestException
      | Response status_code text \<Rightarrow>
          (if status_code \<noteq> 200 then Inl (HTTPException 502 ''Failed to fetch Google Sheet'')
           else Inr text))"

text \<open>
  \<open>reader\<close> stands for \<^verbatim>\<open>csv.DictReader(content.splitlines())\<close> of the standard
  library: the rows it yields for a text.
\<close>

type_synonym csv_reader = "string \<Rightarrow> row list"

definition get_analysis ::
  "csv_reader \<Rightarrow> iso_parser \<Rightarrow> unordered_sort \<Rightarrow> fetch \<Rightarrow> error + response" where
  "get_analysis reader isof srt f =
     (case fetch_content f of
        Inl e \<Rightarrow> Inr fallback
      | Inr content \<Rightarrow>
          (let rows = reader content
           in if rows = [] then Inl (HTTPException 422 ''No rows in sheet'')
              else analysis srt isof rows))"

text \<open>
  An instance of the parameter, for a text without quotes: the lines of
  \<^verbatim>\<open>str.splitlines\<close>, each split at its commas (an empty line gives the empty record);
  the first record is the header, empty records after it are skipped, and a record shorter
  than the header gets \<^verbatim>\<open>None\<close> for the columns it lacks.
\<close>

definition is_linebreak :: "char \<Rightarrow> bool" where
  "is_linebreak c = (let n = (of_char c :: int) in (10 \<le> n \<and> n \<le> 13) \<or> (28 \<le> n \<and> n \<le> 30) \<or> n = 133)"

fun splitlines_from :: "string \<Rightarrow> string \<Rightarrow> string list" where
  "splitlines_from cur [] = (if cur = [] then [] else [cur])"
| "splitlines_from cur [c] = (if is_linebreak c then [cur] else [cur @ [c]])"
| "splitlines_from cur (c # c' # cs) =
     (if c = char_of (13 :: int) \<and> c' = char_of (10 :: int) then cur # splitlines_from [] cs
      else if is_linebreak c then cur # splitlines_from [] (c' # cs)
      else splitlines_from (cur @ [c]) (c' # cs))"

definition splitlines :: "string \<Rightarrow> string list" where
  "splitlines s = splitlines_from [] s"

fun split_commas :: "string \<Rightarrow> string \<Rightarrow> string list" where
  "split_commas cur [] = [cur]"
| "split_commas cur (c # cs) =
     (if c = CHR '','' then cur # split_commas [] cs else split_commas (cur @ [c]) cs)"

definition csv_record :: "string \<Rightarrow> string list" where
  "csv_record l = (if l = [] then [] else split_commas [] l)"

definition dict_row :: "string list \<Rightarrow> string list \<Rightarrow> row" where
  "dict_row fieldnames rec =
     map_of (rev (zip fieldnames (map Some rec @ replicate (length fieldnames - length rec) None)))"

definition plain_reader :: csv_reader where
  "plain_reader content =
     (case map csv_record (splitlines content) of
        [] \<Rightarrow> []
      | fieldnames # recs \<Rightarrow> map (dict_row fieldnames) (filter (\<lambda>rec. rec \<noteq> []) recs))"

subsection \<open>Values the properties refer to\<close>

text \<open>The two rows of the end-to-end scenario.\<close>

definition scenario_rows :: "row list" where
  "scenario_rows =
     [row_of [(''Amount'', ''100''), (''InvoiceDate'', ''2024-01-15''), (''Country'', ''A''),
              (''PaymentMode'', ''Cash''), (''Quantity'', ''2''), (''TotalOrders'', ''1'')],
      row_of [(''Amount'', ''200''), (''InvoiceDate'', ''2024-02-10''), (''Country'', ''B''),
              (''PaymentMode'', ''Card''), (''Quantity'', ''3''), (''TotalOrders'', ''2'')]]"

text \<open>The accumulators after the loop over these two rows.\<close>

definition scenario_agg :: agg where
  "scenario_agg =
     \<lparr>total_revenue = Fin 300,
      qty_per_month = [(''2024-01'', 2), (''2024-02'', 3)],
      revenue_per_month = [(''2024-01'', Fin 100), (''2024-02'', Fin 200)],
      engagement_per_month = [(''2024-01'', Fin 1), (''2024-02'', Fin 2)],
      country_sales = [(''A'', Fin 100), (''B'', Fin 200)],
      payment_counts = [(''Cash'', 1), (''Card'', 1)],
      months_set = {''2024-01'', ''2024-02''}\<rparr>"

text \<open>
  The dictionary the loop builds from the empty one for a key and a value read off each
  row: \<^verbatim>\<open>d[key(r)] = d.get(key(r), zero) + val(r)\<close> for every row in turn.
\<close>

definition accumulate ::
  "('v \<Rightarrow> 'v \<Rightarrow> 'v) \<Rightarrow> 'v \<Rightarrow> ('r \<Rightarrow> 'k) \<Rightarrow> ('r \<Rightarrow> 'v) \<Rightarrow> 'r list \<Rightarrow> ('k \<times> 'v) list" where
  "accumulate add zero key val rows = foldl (\<lambda>d r. dict_add add zero d (key r) (val r)) [] rows"

text \<open>
  The quantity of a row whose quantity can be read, and the accumulators after a loop in
  which every quantity could be read.
\<close>

definition qty_val :: "row \<Rightarrow> int" where
  "qty_val r = (case qty_of r of Inr q \<Rightarrow> q | Inl e \<Rightarrow> 0)"

definition qty_ok :: "row \<Rightarrow> bool" where
  "qty_ok r = (case qty_of r of Inr q \<Rightarrow> True | Inl e \<Rightarrow> False)"

definition accumulators :: "iso_parser \<Rightarrow> row list \<Rightarrow> agg" where
  "accumulators isof rows =
     \<lparr>total_revenue = foldl fadd (Fin 0) (map amount_of rows),
      qty_per_month = accumulate (+) 0 (month_key isof) qty_val rows,
      revenue_per_month = accumulate fadd (Fin 0) (month_key isof) amount_of rows,
      engagement_per_month = accumulate fadd (Fin 0) (month_key isof) total_orders_of rows,
      country_sales = accumulate fadd (Fin 0) country_of amount_of rows,
      payment_counts = accumulate (+) 0 payment_of (\<lambda>r. 1) rows,
      months_set = month_key isof ` set rows\<rparr>"

text \<open>
  The observed months in ascending order of their keys, and the revenue of a month: the
  amounts of the rows of that month, added in the order of the rows.
\<close>

definition observed_months :: "iso_parser \<Rightarrow> row list \<Rightarrow> string list" where
  "observed_months isof rows =
     sorted_list_of_set (Set.filter (\<lambda>m. m \<noteq> ''unknown'') (month_key isof ` set rows))"

definition month_revenue :: "iso_parser \<Rightarrow> row list \<Rightarrow> string \<Rightarrow> pyfloat" where
  "month_revenue isof rows m =
     foldl fadd (Fin 0) (map amount_of (filter (\<lambda>r. month_key isof r = m) rows))"

text \<open>
  The growth percentage as the specification words it, from the revenue of the current and
  of the previous month: \<^verbatim>\<open>((current - previous) / previous) * 100\<close> when the previous
  revenue is positive, 0 otherwise.
\<close>

definition growth_spec :: "pyfloat \<Rightarrow> pyfloat \<Rightarrow> pyfloat" where
  "growth_spec cur prev =
     (if fgt0 prev then fmul (fquot (fsub cur prev) prev) (Fin 100) else Fin 0)"

definition current_revenue :: "iso_parser \<Rightarrow> row list \<Rightarrow> pyfloat" where
  "current_revenue isof rows =
     (let vm = observed_months isof rows
      in if vm = [] then Fin 0 else month_revenue isof rows (last vm))"

definition previous_revenue :: "iso_parser \<Rightarrow> row list \<Rightarrow> pyfloat" where
  "previous_revenue isof rows =
     (let vm = observed_months isof rows
      in if length vm < 2 then Fin 0 else month_revenue isof rows (vm ! (length vm - 2)))"

text \<open>
  The engagement and the quantity of a month, the quantity of all observed months, and the
  label of a month key (empty should the label raise).
\<close>

definition month_engagement :: "iso_parser \<Rightarrow> row list \<Rightarrow> string \<Rightarrow> pyfloat" where
  "month_engagement isof rows m =
     foldl fadd (Fin 0) (map total_orders_of (filter (\<lambda>r. month_key isof r = m) rows))"

definition month_quantity :: "iso_parser \<Rightarrow> row list \<Rightarrow> string \<Rightarrow> int" where
  "month_quantity isof rows m =
     sum_list (map qty_val (filter (\<lambda>r. month_key isof r = m) rows))"

definition total_quantity :: "iso_parser \<Rightarrow> row list \<Rightarrow> int" where
  "total_quantity isof rows =
     sum_list (map (month_quantity isof rows) (observed_months isof rows))"

definition label_of :: "string \<Rightarrow> string" where
  "label_of m = (case month_label m of Inr l \<Rightarrow> l | Inl e \<Rightarrow> [])"

text \<open>The rows whose \<^verbatim>\<open>InvoiceDate\<close> gives a date.\<close>

definition dated_rows :: "iso_parser \<Rightarrow> row list \<Rightarrow> row list" where
  "dated_rows isof rows = filter (\<lambda>r. invoice_date isof r \<noteq> None) rows"

text \<open>
  The revenue of a country, the amounts of its rows added in the order of the rows, and the
  number of rows of a payment mode.
\<close>

definition country_revenue :: "row list \<Rightarrow> string \<Rightarrow> pyfloat" where
  "country_revenue rows k =
     foldl fadd (Fin 0) (map amount_of (filter (\<lambda>r. country_of r = k) rows))"

definition payment_count :: "row list \<Rightarrow> string \<Rightarrow> int" where
  "payment_count rows k = int (length (filter (\<lambda>r. payment_of r = k) rows))"

text \<open>The amount of a row as a whole number: the amount itself when it is one.\<close>

definition int_amount :: "row \<Rightarrow> int" where
  "int_amount r = (case amount_of r of Fin a \<Rightarrow> \<lfloor>a\<rfloor> | _ \<Rightarrow> 0)"

text \<open>The keys of a list in the order of their first occurrence.\<close>

definition first_seen :: "'a list \<Rightarrow> 'a list" where
  "first_seen xs = rev (remdups (rev xs))"

text \<open>
  The number normaliser as the specification words it: every character is removed that
  is not a digit, a decimal point or a leading minus sign (a minus sign with nothing kept
  before it), and the result is 0 when no number can be read from what is left.
\<close>

fun spec_strip :: "bool \<Rightarrow> string \<Rightarrow> string" where
  "spec_strip leading [] = []"
| "spec_strip leading (c # cs) =
     (if is_digit c \<or> c = CHR ''.'' then c # spec_strip False cs
      else if c = CHR ''-'' \<and> leading then c # spec_strip False cs
      else spec_strip leading cs)"

definition toNumber_spec :: "string option \<Rightarrow> pyfloat" where
  "toNumber_spec val =
     (case val of
        None \<Rightarrow> Fin 0
      | Some v \<Rightarrow> (case py_float (spec_strip True v) of Some x \<Rightarrow> x | None \<Rightarrow> Fin 0))"

text \<open>
  An instance of the sorting parameter: the items are left as they are. That is what
  \<^verbatim>\<open>sorted\<close> does when no key is less than the key before it.
\<close>

definition left_in_place :: unordered_sort where
  "left_in_place kvs = kvs"

text \<open>
  Two sheets for the plain reader: one whose rows have no date that parses, and one with a
  dated and an undated row.
\<close>

definition undated_csv :: string where
  "undated_csv =
     ''Amount,InvoiceDate,Country,PaymentMode,Quantity'' @ [CHR 0x0A]
     @ ''100,tomorrow,A,Cash,4'' @ [CHR 0x0A]
     @ ''50,,A,Card,1''"

definition mixed_csv :: string where
  "mixed_csv =
     ''Amount,InvoiceDate,Country,PaymentMode,Quantity,TotalOrders'' @ [CHR 0x0A]
     @ ''100,2024-01-15,A,Cash,2,1'' @ [CHR 0x0A]
     @ ''50,someday,B,Card,7,3''"

text \<open>A number of 310 digits: 1 followed by 309 zeros, beyond the range of a double.\<close>

definition huge_number :: string where
  "huge_number = CHR ''1'' # replicate 309 (CHR ''0'')"

text \<open>A sheet whose one row has no date and a quantity beyond the range of a double.\<close>

definition huge_quantity_csv :: string where
  "huge_quantity_csv =
     ''Amount,InvoiceDate,Quantity'' @ [CHR 0x0A] @ ''100,tomorrow,'' @ huge_number"

text \<open>Two rows with the revenues 3 and 4 in consecutive months.\<close>

definition growth_rows :: "row list" where
  "growth_rows =
     [row_of [(''Amount'', ''3''), (''InvoiceDate'', ''2024-01-15'')],
      row_of [(''Amount'', ''4''), (''InvoiceDate'', ''2024-02-10'')]]"

text \<open>Three rows with an amount only, in two orders.\<close>

definition big_rows :: "row list" where
  "big_rows =
     [row_of [(''Amount'', ''10000000000000000'')],
      row_of [(''Amount'', ''1'')],
      row_of [(''Amount'', ''-10000000000000000'')]]"

definition big_rows_permuted :: "row list" where
  "big_rows_permuted =
     [row_of [(''Amount'', ''10000000000000000'')],
      row_of [(''Amount'', ''-10000000000000000'')],
      row_of [(''Amount'', ''1'')]]"

text \<open>
  Four rows of three countries: the amounts of country A are beyond the range of a double
  with opposite signs, so that its revenue is \<^verbatim>\<open>inf + -inf\<close>, a NaN.
\<close>

definition nan_rows :: "row list" where
  "nan_rows =
     [row_of [(''Amount'', ''1''), (''Country'', ''B'')],
      row_of [(''Amount'', huge_number), (''Country'', ''A'')],
      row_of [(''Amount'', CHR ''-'' # huge_number), (''Country'', ''A'')],
      row_of [(''Amount'', ''2''), (''Country'', ''C'')]]"

text \<open>
  Two rows of two countries whose revenues, 1.001 and 1.004, are both 1.0 when rounded to
  two decimals.
\<close>

definition tie_rows :: "row list" where
  "tie_rows =
     [row_of [(''Amount'', ''1.001''), (''Country'', ''A'')],
      row_of [(''Amount'', ''1.004''), (''Country'', ''B'')]]"

text \<open>Whether a list of floats is in descending order, by the comparison of floats.\<close>

definition fle :: "pyfloat \<Rightarrow> pyfloat \<Rightarrow> bool" where
  "fle x y = (x \<noteq> NaN \<and> y \<noteq> NaN \<and> rank x \<le> rank y)"

fun descending :: "pyfloat list \<Rightarrow> bool" where
  "descending [] = True"
| "descending [x] = True"
| "descending (x # y # xs) = (fle y x \<and> descending (y # xs))"

section \<open>Properties\<close>

subsection \<open>The empty sheet\<close>

text \<open>
  C6. When the upstream answers with status 200 and the reader finds no data row in the
  text (a header alone, or nothing), the endpoint raises the HTTP error 422; it does not
  return the fallback dataset.
\<close>

theorem empty_sheet_is_422:
  assumes "reader content = []"
  shows "get_analysis reader isof srt (Response 200 content)
           = Inl (HTTPException 422 ''No rows in sheet'')
         \<and> get_analysis reader isof srt (Response 200 content) \<noteq> Inr fallback"
  using assms by (simp add: get_analysis_def fetch_content_def)

theorem empty_sheet_is_422_witness:
  "plain_reader ''Amount,Country'' = [] \<and> plain_reader [] = []
   \<and> get_analysis plain_reader iso_calendar_date left_in_place (Response 200 ''Amount,Country'')
       = Inl (HTTPException 422 ''No rows in sheet'')
   \<and> get_analysis plain_reader iso_calendar_date left_in_place (Response 200 [])
       = Inl (HTTPException 422 ''No rows in sheet'')"
proof -
  have h1: "plain_reader ''Amount,Country'' = []" by code_simp
  have h2: "plain_reader [] = []" by code_simp
  show ?thesis
    using h1 h2
      empty_sheet_is_422 [of plain_reader "''Amount,Country''" iso_calendar_date left_in_place]
      empty_sheet_is_422 [of plain_reader "[]" iso_calendar_date left_in_place]
    by simp
qed

subsection \<open>The number normaliser\<close>

lemma filter_dropWhile_disjoint:
  "(\<And>x. Q x \<Longrightarrow> \<not> P x) \<Longrightarrow> filter P (dropWhile Q xs) = filter P xs"
  by (induction xs) auto

lemma keep_not_space: "is_space c \<Longrightarrow> \<not> currency_keep c"
  by (auto simp: is_space_def currency_keep_def is_digit_def Let_def)

lemma currency_sub_strip: "currency_sub (strip v) = currency_sub v"
proof -
  have 1: "filter currency_keep (dropWhile is_space (rev (dropWhile is_space v)))
        = filter currency_keep (rev (dropWhile is_space v))"
    by (rule filter_dropWhile_disjoint) (rule keep_not_space)
  have 2: "filter currency_keep (dropWhile is_space v) = filter currency_keep v"
    by (rule filter_dropWhile_disjoint) (rule keep_not_space)
  have "filter currency_keep (strip v)
        = rev (filter currency_keep (dropWhile is_space (rev (dropWhile is_space v))))"
    by (simp add: strip_def rev_filter)
  also have "\<dots> = rev (filter currency_keep (rev (dropWhile is_space v)))"
    by (simp only: 1)
  also have "\<dots> = filter currency_keep (dropWhile is_space v)"
    by (simp add: rev_filter)
  also have "\<dots> = filter currency_keep v"
    by (rule 2)
  finally show ?thesis
    by (simp add: currency_sub_def)
qed

lemma py_float_Nil: "py_float [] = None"
  by (simp add: py_float_def)

lemma to_float_eq:
  "to_float (Some v) = (case py_float (currency_sub v) of Some x \<Rightarrow> x | None \<Rightarrow> Fin 0)"
proof (cases "strip v = []")
  case True
  then have "currency_sub v = []"
    using currency_sub_strip [of v] by (simp add: currency_sub_def)
  with True show ?thesis by (simp add: to_float_def py_float_Nil)
next
  case False
  then show ?thesis
    by (simp add: to_float_def Let_def currency_sub_strip py_float_Nil)
qed

lemma to_float_None: "to_float None = Fin 0"
  by (simp add: to_float_def)

lemma to_float_dollars: "to_float (Some ''$1,234.56'') = round_double (123456 / 100)"
  by code_simp

lemma to_float_empty: "to_float (Some []) = Fin 0"
  by code_simp

lemma to_float_abc: "to_float (Some ''abc'') = Fin 0"
  by code_simp

text \<open>
  C3, as the code has it. \<^verbatim>\<open>to_float\<close> never raises. It removes every character that
  is not a digit, a decimal point or a minus sign; every minus sign is kept, wherever it
  stands, not only a leading one. The result is the number that \<^verbatim>\<open>float\<close> reads from
  what is left, and 0 when the input is absent or empty or when what is left is not a
  number (nothing left, a minus sign after the first character, two points, no digit).
  \<^verbatim>\<open>"$1,234.56"\<close> gives the double written 1234.56, \<^verbatim>\<open>""\<close> and \<^verbatim>\<open>"abc"\<close> give 0.
\<close>

theorem to_float_keeps_every_minus:
  "to_float val =
     (case val of
        None \<Rightarrow> Fin 0
      | Some v \<Rightarrow> (case py_float (filter currency_keep v) of Some x \<Rightarrow> x | None \<Rightarrow> Fin 0))
   \<and> to_float (Some ''$1,234.56'') = round_double (123456 / 100)
   \<and> to_float (Some []) = Fin 0
   \<and> to_float (Some ''abc'') = Fin 0"
proof -
  have "to_float val =
     (case val of
        None \<Rightarrow> Fin 0
      | Some v \<Rightarrow> (case py_float (filter currency_keep v) of Some x \<Rightarrow> x | None \<Rightarrow> Fin 0))"
    by (cases val) (simp_all add: to_float_eq currency_sub_def to_float_None)
  then show ?thesis
    using to_float_dollars to_float_empty to_float_abc by blast
qed

theorem to_float_keeps_every_minus_witness:
  "to_float (Some ''-5'') = Fin (- 5) \<and> to_float (Some ''1-2'') = Fin 0
   \<and> to_float (Some ''1.2.3'') = Fin 0"
proof -
  have "py_float (filter currency_keep ''-5'') = Some (Fin (- 5))" by code_simp
  moreover have "py_float (filter currency_keep ''1-2'') = None" by code_simp
  moreover have "py_float (filter currency_keep ''1.2.3'') = None" by code_simp
  ultimately show ?thesis
    using to_float_keeps_every_minus [of "Some ''-5''"]
      to_float_keeps_every_minus [of "Some ''1-2''"]
      to_float_keeps_every_minus [of "Some ''1.2.3''"]
    by simp
qed

text \<open>
  C3 as the specification words it fails on \<^verbatim>\<open>"1-2"\<close>: removing the minus sign that is
  not leading would leave 12, and the code returns 0.
\<close>

theorem to_float_interior_minus_counterexample:
  "to_float (Some ''1-2'') = Fin 0 \<and> toNumber_spec (Some ''1-2'') = Fin 12"
  by code_simp

subsection \<open>The date normaliser\<close>










subsection \<open>Dictionaries\<close>

lemma map_of_dict_set: "map_of (dict_set kvs k v) = (map_of kvs)(k \<mapsto> v)"
  by (induction kvs) (auto simp: fun_eq_iff)

lemma keys_dict_set:
  "map fst (dict_set kvs k v) = (if k \<in> fst ` set kvs then map fst kvs else map fst kvs @ [k])"
  by (induction kvs) (force split: if_splits)+

lemma dict_get_dict_add:
  "dict_get (dict_add add z kvs k x) k' z =
     (if k' = k then add (dict_get kvs k z) x else dict_get kvs k' z)"
  by (simp add: dict_get_def dict_add_def map_of_dict_set)

lemma keys_dict_add:
  "map fst (dict_add add z kvs k x) =
     (if k \<in> fst ` set kvs then map fst kvs else map fst kvs @ [k])"
  by (simp add: dict_add_def keys_dict_set)

lemma first_seen_snoc:
  "first_seen (xs @ [x]) = (if x \<in> set xs then first_seen xs else first_seen xs @ [x])"
  by (simp add: first_seen_def)

lemma set_first_seen: "set (first_seen xs) = set xs"
  by (simp add: first_seen_def)

lemma distinct_first_seen: "distinct (first_seen xs)"
  by (simp add: first_seen_def)

lemma accumulate_Nil: "accumulate add z key val [] = []"
  by (simp add: accumulate_def)

lemma accumulate_snoc:
  "accumulate add z key val (rows @ [r]) =
     dict_add add z (accumulate add z key val rows) (key r) (val r)"
  by (simp add: accumulate_def)

lemma keys_accumulate: "map fst (accumulate add z key val rows) = first_seen (map key rows)"
proof (induction rows rule: rev_induct)
  case Nil
  show ?case by (simp add: accumulate_Nil first_seen_def)
next
  case (snoc r rows)
  have "fst ` set (accumulate add z key val rows) = key ` set rows"
    using snoc.IH set_first_seen [of "map key rows"]
    by (metis list.set_map)
  then show ?case
    using snoc.IH by (simp add: accumulate_snoc keys_dict_add first_seen_snoc)
qed

lemma key_set_accumulate: "fst ` set (accumulate add z key val rows) = key ` set rows"
  using keys_accumulate [of add z key val rows] set_first_seen [of "map key rows"]
  by (metis list.set_map)

lemma dict_get_accumulate:
  "dict_get (accumulate add z key val rows) k z
     = foldl add z (map val (filter (\<lambda>r. key r = k) rows))"
proof (induction rows arbitrary: k rule: rev_induct)
  case Nil
  show ?case by (simp add: accumulate_Nil dict_get_def)
next
  case (snoc r rows)
  then show ?case
    by (simp add: accumulate_snoc dict_get_dict_add)
qed

lemma map_of_accumulate:
  "map_of (accumulate add z key val rows) k =
     (if k \<in> key ` set rows
      then Some (foldl add z (map val (filter (\<lambda>r. key r = k) rows)))
      else None)"
proof (cases "k \<in> key ` set rows")
  case True
  then have "k \<in> fst ` set (accumulate add z key val rows)"
    by (simp add: key_set_accumulate)
  then obtain v where v: "map_of (accumulate add z key val rows) k = Some v"
    by (metis map_of_eq_None_iff not_Some_eq)
  then have "dict_get (accumulate add z key val rows) k z = v"
    by (simp add: dict_get_def)
  with v True show ?thesis
    by (simp add: dict_get_accumulate)
next
  case False
  then have "k \<notin> fst ` set (accumulate add z key val rows)"
    by (simp add: key_set_accumulate)
  then have "map_of (accumulate add z key val rows) k = None"
    by (simp add: map_of_eq_None_iff)
  with False show ?thesis by simp
qed

subsection \<open>What the loop computes\<close>

lemma round_double_not_NaN: "round_double x \<noteq> NaN"
  by (simp add: round_double_def Let_def split: prod.splits)

lemma py_float_not_NaN: "py_float s \<noteq> Some NaN"
  by (auto simp: py_float_def round_double_not_NaN split: list.splits if_splits)

lemma to_float_not_NaN: "to_float val \<noteq> NaN"
  using py_float_not_NaN
  by (auto simp: to_float_def Let_def split: option.splits if_splits)

lemma qty_of_cases: "qty_of r = Inr (qty_val r) \<and> qty_ok r \<or> qty_of r = Inl OverflowError \<and> \<not> qty_ok r"
  using to_float_not_NaN [of "row_get r ''Quantity'' (Some ''0'')"]
  by (auto simp: qty_of_def qty_val_def qty_ok_def py_int_def split: pyfloat.splits)

lemma add_row_eq:
  "add_row isof a r =
     (if qty_ok r then Inr (accumulate_row isof a r (qty_val r)) else Inl OverflowError)"
  using qty_of_cases [of r] by (auto simp: add_row_def bind_err_def)

lemma aggregate_from_eq:
  "aggregate_from isof a rows =
     (if list_all qty_ok rows
      then Inr (foldl (\<lambda>a r. accumulate_row isof a r (qty_val r)) a rows)
      else Inl OverflowError)"
  by (induction rows arbitrary: a) (simp_all add: add_row_eq bind_err_def)

lemma accumulators_Nil: "accumulators isof [] = agg_init"
  by (simp add: accumulators_def agg_init_def accumulate_Nil)

lemma accumulators_snoc:
  "accumulators isof (rows @ [r]) = accumulate_row isof (accumulators isof rows) r (qty_val r)"
  by (simp add: accumulators_def accumulate_row_def Let_def accumulate_snoc)

lemma foldl_accumulators:
  "foldl (\<lambda>a r. accumulate_row isof a r (qty_val r)) agg_init rows = accumulators isof rows"
  by (induction rows rule: rev_induct) (simp_all add: accumulators_Nil accumulators_snoc)

lemma aggregate_eq:
  "aggregate isof rows =
     (if list_all qty_ok rows then Inr (accumulators isof rows) else Inl OverflowError)"
  by (simp add: aggregate_def aggregate_from_eq foldl_accumulators)

lemma aggregate_Inr: "aggregate isof rows = Inr a \<Longrightarrow> a = accumulators isof rows"
  by (simp add: aggregate_eq split: if_splits)

lemma aggregate_Inl: "aggregate isof rows = Inl e \<Longrightarrow> e = OverflowError"
  by (simp add: aggregate_eq split: if_splits)

subsection \<open>Month keys and their labels\<close>

lemma digit_char_facts:
  assumes "0 \<le> k" "k \<le> 9"
  shows "is_digit (digit_char k)" "digit_val (digit_char k) = k"
proof -
  have "list_all (\<lambda>k. is_digit (digit_char k) \<and> digit_val (digit_char k) = k) [0..9]"
    by code_simp
  then have "\<forall>k\<in>{0..9}. is_digit (digit_char k) \<and> digit_val (digit_char k) = k"
    by (simp add: list_all_iff)
  with assms show "is_digit (digit_char k)" "digit_val (digit_char k) = k"
    by auto
qed

lemma year_digit_bounds:
  fixes y :: int
  assumes "1 \<le> y" "y \<le> 9999"
  shows "0 \<le> y div 1000" "y div 1000 \<le> 9" "0 \<le> y div 100 mod 10" "y div 100 mod 10 \<le> 9"
    "0 \<le> y div 10 mod 10" "y div 10 mod 10 \<le> 9" "0 \<le> y mod 10" "y mod 10 \<le> 9"
proof -
  show "0 \<le> y div 1000" using assms by simp
  show "y div 1000 \<le> 9" using assms by simp
  have b: "\<And>x::int. 0 \<le> x mod 10 \<and> x mod 10 \<le> 9"
    by (simp add: zle_diff1_eq [symmetric] del: zle_diff1_eq)
  show "0 \<le> y div 100 mod 10" "y div 100 mod 10 \<le> 9" "0 \<le> y div 10 mod 10"
    "y div 10 mod 10 \<le> 9" "0 \<le> y mod 10" "y mod 10 \<le> 9"
    using b by blast+
qed

lemma year_digits_sum:
  fixes y :: int
  shows "1000 * (y div 1000) + 100 * (y div 100 mod 10) + 10 * (y div 10 mod 10) + y mod 10 = y"
proof -
  have 1: "y div 100 = y div 10 div 10" by (simp add: zdiv_zmult2_eq [symmetric])
  have 2: "y div 1000 = y div 100 div 10" by (simp add: zdiv_zmult2_eq [symmetric])
  have a: "10 * (y div 10) + y mod 10 = y" by (rule mult_div_mod_eq)
  have b: "10 * (y div 10 div 10) + y div 10 mod 10 = y div 10" by (rule mult_div_mod_eq)
  have c: "10 * (y div 100 div 10) + y div 100 mod 10 = y div 100" by (rule mult_div_mod_eq)
  from 1 2 a b c show ?thesis by linarith
qed

lemma alts_year:
  assumes "1 \<le> y" "y \<le> 9999"
  shows "alts DY (digit_char (y div 1000) # digit_char (y div 100 mod 10)
                  # digit_char (y div 10 mod 10) # digit_char (y mod 10) # rest)
         = [(y, rest)]"
proof -
  note yd = year_digit_bounds [OF assms]
  note a = digit_char_facts [OF yd(1) yd(2)] and b = digit_char_facts [OF yd(3) yd(4)]
    and c = digit_char_facts [OF yd(5) yd(6)] and d = digit_char_facts [OF yd(7) yd(8)]
  have "int_of_digits [digit_char (y div 1000), digit_char (y div 100 mod 10),
                       digit_char (y div 10 mod 10), digit_char (y mod 10)]
        = 10 * (10 * (10 * (y div 1000) + y div 100 mod 10) + y div 10 mod 10) + y mod 10"
    by (simp only: int_of_digits_def foldl.simps a(2) b(2) c(2) d(2) mult_zero_right add_0)
  also have "\<dots> = 1000 * (y div 1000) + 100 * (y div 100 mod 10) + 10 * (y div 10 mod 10)
                 + y mod 10"
    by simp
  also have "\<dots> = y" by (rule year_digits_sum)
  finally have v: "int_of_digits [digit_char (y div 1000), digit_char (y div 100 mod 10),
                       digit_char (y div 10 mod 10), digit_char (y mod 10)] = y" .
  have l: "list_all is_digit [digit_char (y div 1000), digit_char (y div 100 mod 10),
                       digit_char (y div 10 mod 10), digit_char (y mod 10)]"
    by (simp add: a(1) b(1) c(1) d(1))
  have t: "take 4 (digit_char (y div 1000) # digit_char (y div 100 mod 10)
                  # digit_char (y div 10 mod 10) # digit_char (y mod 10) # rest)
           = [digit_char (y div 1000), digit_char (y div 100 mod 10),
                       digit_char (y div 10 mod 10), digit_char (y mod 10)]"
    by simp
  have dr: "drop 4 (digit_char (y div 1000) # digit_char (y div 100 mod 10)
                  # digit_char (y div 10 mod 10) # digit_char (y mod 10) # rest) = rest"
    by simp
  have len: "4 \<le> length (digit_char (y div 1000) # digit_char (y div 100 mod 10)
                  # digit_char (y div 10 mod 10) # digit_char (y mod 10) # rest)"
    by simp
  show ?thesis
    by (simp only: alts.simps t dr len l v simp_thms if_True)
qed

lemma month_day_match:
  assumes "1 \<le> m" "m \<le> 12"
  shows "re_match [Lit CHR ''-'', Dm, Lit CHR ''-'', Dd]
           (CHR ''-'' # digit_char (m div 10) # digit_char (m mod 10) # ''-01'')
         = [([(Lit CHR ''-'', 0), (Dm, m), (Lit CHR ''-'', 0), (Dd, 1)], [])]"
proof -
  have "list_all
          (\<lambda>m. re_match [Lit CHR ''-'', Dm, Lit CHR ''-'', Dd]
                  (CHR ''-'' # digit_char (m div 10) # digit_char (m mod 10) # ''-01'')
                = [([(Lit CHR ''-'', 0), (Dm, m), (Lit CHR ''-'', 0), (Dd, 1)], [])])
          [1..12]"
    by code_simp
  then have "\<forall>m\<in>{1..12}.
               re_match [Lit CHR ''-'', Dm, Lit CHR ''-'', Dd]
                  (CHR ''-'' # digit_char (m div 10) # digit_char (m mod 10) # ''-01'')
                = [([(Lit CHR ''-'', 0), (Dm, m), (Lit CHR ''-'', 0), (Dd, 1)], [])]"
    by (simp add: list_all_iff)
  with assms show ?thesis by auto
qed

lemma days_in_month_ge: "28 \<le> days_in_month y m"
  by (simp add: days_in_month_def)

lemma strptime_month_key:
  assumes "valid_date d" and "1000 \<le> year d"
  shows "strptime (strftime_Ym d @ ''-01'') fmt_Y_m_d
         = Some \<lparr>year = year d, month = month d, day = 1\<rparr>"
proof -
  from assms have y: "1 \<le> year d" "year d \<le> 9999" and m: "1 \<le> month d" "month d \<le> 12"
    by (simp_all add: valid_date_def)
  have v: "valid_date \<lparr>year = year d, month = month d, day = 1\<rparr>"
    using y m days_in_month_ge [of "year d" "month d"] by (simp add: valid_date_def)
  have yd: "year_digits (year d) =
      [digit_char (year d div 1000), digit_char (year d div 100 mod 10),
       digit_char (year d div 10 mod 10), digit_char (year d mod 10)]"
    using assms(2) by (simp add: year_digits_def)
  have "re_match fmt_Y_m_d (strftime_Ym d @ ''-01'')
        = [([(DY, year d), (Lit CHR ''-'', 0), (Dm, month d), (Lit CHR ''-'', 0), (Dd, 1)], [])]"
    unfolding fmt_Y_m_d_def strftime_Ym_def yd
    using alts_year [OF y] month_day_match [OF m]
    by (simp del: alts.simps)
  then show ?thesis
    using v by (simp add: strptime_def field_def)
qed

lemma length_year_digits: "length (year_digits y) = 4 \<longleftrightarrow> 1000 \<le> y"
  by (simp add: year_digits_def)

lemma strftime_Ym_shape:
  "strftime_Ym d \<noteq> ''unknown''" "strftime_Ym d \<noteq> []"
  "length (strftime_Ym d) = 7 \<longleftrightarrow> 1000 \<le> year d"
  by (simp_all add: strftime_Ym_def year_digits_def)

lemma month_label_strftime:
  assumes "valid_date d"
  shows "month_label (strftime_Ym d) =
           Inr (if 1000 \<le> year d then month_names ! nat (month d - 1) else ''N/A'')"
proof (cases "1000 \<le> year d")
  case True
  then show ?thesis
    using strptime_month_key [OF assms True]
    by (simp add: month_label_def strftime_Ym_shape strftime_b_def)
next
  case False
  then show ?thesis
    by (simp add: month_label_def strftime_Ym_shape)
qed

lemma strptime_valid: "strptime s fmt = Some d \<Longrightarrow> valid_date d"
  by (auto simp: strptime_def Let_def split: list.splits if_splits prod.splits)

lemma try_formats_valid: "try_formats fmts s = Some d \<Longrightarrow> valid_date d"
  by (induction fmts) (auto split: option.splits dest: strptime_valid)

lemma parse_date_valid: "parse_date val = Some d \<Longrightarrow> valid_date d"
  by (auto simp: parse_date_def split: option.splits if_splits dest: strptime_valid)

lemma fromisoformat_valid: "fromisoformat isof s = Some d \<Longrightarrow> valid_date d"
  by (auto simp: fromisoformat_def split: option.splits if_splits)

lemma invoice_date_valid: "invoice_date isof r = Some d \<Longrightarrow> valid_date d"
  by (auto simp: invoice_date_def split: option.splits
      dest: parse_date_valid fromisoformat_valid)

lemma month_key_unknown_iff: "month_key isof r = ''unknown'' \<longleftrightarrow> invoice_date isof r = None"
  by (auto simp: month_key_def strftime_Ym_shape split: option.splits)

lemma month_key_not_empty: "month_key isof r \<noteq> []"
  by (auto simp: month_key_def strftime_Ym_shape split: option.splits)

lemma month_label_month_key:
  assumes "month_key isof r \<noteq> ''unknown''"
  shows "\<exists>l. month_label (month_key isof r) = Inr l"
proof -
  from assms obtain d where d: "invoice_date isof r = Some d"
    by (auto simp: month_key_unknown_iff)
  then have "valid_date d" by (rule invoice_date_valid)
  then show ?thesis
    using d by (simp add: month_key_def month_label_strftime)
qed

subsection \<open>The end-to-end scenario\<close>

lemma scenario_aggregate: "aggregate isof scenario_rows = Inr scenario_agg"
  by code_simp

lemma scenario_months: "valid_months scenario_agg = [''2024-01'', ''2024-02'']"
  by code_simp

lemma scenario_growth: "avg_growth scenario_agg = Inr (Fin 100)"
  by code_simp

lemma scenario_avg_qty: "avg_qty_per_month scenario_agg = Inr (Fin (5 / 2))"
  by code_simp

lemma scenario_trend:
  "collect (trend_point scenario_agg) (last_n 4 [''2024-01'', ''2024-02''])
     = Inr [(''Jan'', Fin 100), (''Feb'', Fin 200)]"
  by code_simp

lemma scenario_engagement:
  "collect (engagement_point scenario_agg) (last_n 3 [''2024-01'', ''2024-02''])
     = Inr [(''Jan'', Fin 1), (''Feb'', Fin 2)]"
  by code_simp

lemma scenario_kpis:
  "py_round2 (total_revenue scenario_agg) = Fin 300"
  "py_round2 (this_month_revenue scenario_agg) = Fin 200"
  "py_round2 (Fin 100) = Fin 100" "py_round2 (Fin (5 / 2)) = Fin (5 / 2)"
  by code_simp+

lemma scenario_countries:
  "country_list srt scenario_agg = [(''B'', Fin 200), (''A'', Fin 100)]"
  by code_simp

lemma scenario_payments: "payment_list scenario_agg = [(''Cash'', 1), (''Card'', 1)]"
  by code_simp

text \<open>
  C1. For the two rows of the scenario the analysis returns totalRevenue 300,
  thisMonthRevenue 200, avgGrowth 100.0, the revenue trend Jan 100, Feb 200 and the
  country sales B 200, A 100 (and avgQtyPerMonth 2.5, the engagement trend Jan 1, Feb 2,
  one payment each for Cash and Card), whatever the ISO parser of the library does: both
  dates are read by the first format.
\<close>

theorem scenario_analysis:
  "analysis srt isof scenario_rows = Inr
     \<lparr>source = ''sheet'',
      kpis = \<lparr>totalRevenue = Fin 300, thisMonthRevenue = Fin 200, avgGrowth = Fin 100,
               avgQtyPerMonth = Fin (5 / 2)\<rparr>,
      revenueTrend = [(''Jan'', Fin 100), (''Feb'', Fin 200)],
      engagementTrend = [(''Jan'', Fin 1), (''Feb'', Fin 2)],
      countrySales = [(''B'', Fin 200), (''A'', Fin 100)],
      paymentDistribution = [(''Cash'', 1), (''Card'', 1)]\<rparr>"
  by (simp add: analysis_def bind_err_def scenario_aggregate scenario_growth scenario_avg_qty
      scenario_months scenario_trend scenario_engagement scenario_kpis scenario_countries
      scenario_payments)

theorem scenario_analysis_witness:
  "analysis left_in_place iso_calendar_date scenario_rows = Inr
     \<lparr>source = ''sheet'',
      kpis = \<lparr>totalRevenue = Fin 300, thisMonthRevenue = Fin 200, avgGrowth = Fin 100,
               avgQtyPerMonth = Fin (5 / 2)\<rparr>,
      revenueTrend = [(''Jan'', Fin 100), (''Feb'', Fin 200)],
      engagementTrend = [(''Jan'', Fin 1), (''Feb'', Fin 2)],
      countrySales = [(''B'', Fin 200), (''A'', Fin 100)],
      paymentDistribution = [(''Cash'', 1), (''Card'', 1)]\<rparr>"
  by (rule scenario_analysis [of left_in_place iso_calendar_date])

subsection \<open>The observed months\<close>

lemma valid_months_accumulators:
  "valid_months (accumulators isof rows) = observed_months isof rows"
  by (simp add: valid_months_def observed_months_def accumulators_def)

lemma set_observed_months:
  "set (observed_months isof rows) = {m \<in> month_key isof ` set rows. m \<noteq> ''unknown''}"
  by (auto simp: observed_months_def)

lemma sorted_observed_months:
  "sorted (observed_months isof rows)" "distinct (observed_months isof rows)"
  by (simp_all add: observed_months_def)

lemma foldl_plus_sum_list: "foldl (+) a xs = a + sum_list (xs :: int list)"
  by (induction xs arbitrary: a) simp_all

lemma revenue_get:
  "dict_get (revenue_per_month (accumulators isof rows)) m (Fin 0) = month_revenue isof rows m"
  by (simp add: accumulators_def dict_get_accumulate month_revenue_def)

lemma engagement_get:
  "dict_get (engagement_per_month (accumulators isof rows)) m (Fin 0)
     = month_engagement isof rows m"
  by (simp add: accumulators_def dict_get_accumulate month_engagement_def)

lemma qty_get:
  "dict_get (qty_per_month (accumulators isof rows)) m 0 = month_quantity isof rows m"
  by (simp add: accumulators_def dict_get_accumulate month_quantity_def foldl_plus_sum_list)

lemma month_revenue_empty_key: "month_revenue isof rows [] = Fin 0"
proof -
  have "filter (\<lambda>r. month_key isof r = []) rows = []"
    by (simp add: month_key_not_empty)
  then show ?thesis by (simp add: month_revenue_def)
qed

lemma this_month_revenue_eq:
  "this_month_revenue (accumulators isof rows) = current_revenue isof rows"
  by (simp add: this_month_revenue_def now_month_def or_empty_def revenue_get
      month_revenue_empty_key Let_def valid_months_accumulators current_revenue_def)

lemma last_month_revenue_eq:
  "last_month_revenue (accumulators isof rows) = previous_revenue isof rows"
  by (simp add: last_month_revenue_def prev_month_def or_empty_def revenue_get
      month_revenue_empty_key Let_def not_less valid_months_accumulators previous_revenue_def)

lemma total_qty_eq: "total_qty (accumulators isof rows) = total_quantity isof rows"
  by (simp add: total_qty_def total_quantity_def valid_months_accumulators qty_get)

lemma month_count_eq:
  "month_count (accumulators isof rows) = max 1 (int (length (observed_months isof rows)))"
  by (simp add: month_count_def valid_months_accumulators)

subsection \<open>What the analysis returns\<close>

lemma fgt0_not_zero: "fgt0 x \<Longrightarrow> x \<noteq> Fin 0"
  by (auto simp: fgt0_def fpos_def)

lemma avg_growth_eq:
  "avg_growth a = Inr (growth_spec (this_month_revenue a) (last_month_revenue a))"
  by (simp add: avg_growth_def growth_spec_def fdiv_def bind_err_def fgt0_not_zero)

lemma int_truediv_cases:
  "d \<noteq> 0 \<Longrightarrow> (\<exists>q. int_truediv n d = Inr (Fin q)) \<or> int_truediv n d = Inl OverflowError"
  by (simp add: int_truediv_def split: pyfloat.splits)

lemma max_one_pos: "0 < max 1 (x :: int)" "max 1 (x :: int) \<noteq> 0"
  by (simp_all add: max_def)

lemma avg_qty_eq:
  "avg_qty_per_month (accumulators isof rows)
     = int_truediv (total_quantity isof rows) (max 1 (int (length (observed_months isof rows))))"
proof -
  have "0 < max 1 (int (length (observed_months isof rows)))"
    by (rule max_one_pos)
  then show ?thesis
    by (simp only: avg_qty_per_month_def total_qty_eq month_count_eq if_True)
qed

lemma avg_qty_cases:
  "(\<exists>q. avg_qty_per_month (accumulators isof rows) = Inr (Fin q))
   \<or> avg_qty_per_month (accumulators isof rows) = Inl OverflowError"
  unfolding avg_qty_eq by (rule int_truediv_cases) (rule max_one_pos)

lemma collect_map:
  "(\<And>x. x \<in> set xs \<Longrightarrow> f x = Inr (g x)) \<Longrightarrow> collect f xs = Inr (map g xs)"
  by (induction xs) (simp_all add: bind_err_def)

lemma set_last_n: "set (last_n n xs) \<subseteq> set xs"
  by (simp add: last_n_def set_drop_subset)

lemma month_label_observed:
  assumes "m \<in> set (observed_months isof rows)"
  shows "month_label m = Inr (label_of m)"
proof -
  from assms obtain r where r: "r \<in> set rows" "m = month_key isof r" "m \<noteq> ''unknown''"
    by (auto simp: set_observed_months)
  then obtain l where "month_label m = Inr l"
    using month_label_month_key [of isof r] by auto
  then show ?thesis by (simp add: label_of_def)
qed

lemma trend_point_observed:
  assumes "m \<in> set (observed_months isof rows)"
  shows "trend_point (accumulators isof rows) m
         = Inr (label_of m, py_round2 (month_revenue isof rows m))"
proof -
  have "m \<in> month_key isof ` set rows"
    using assms by (auto simp: set_observed_months)
  then obtain v where v: "map_of (revenue_per_month (accumulators isof rows)) m = Some v"
    by (simp add: accumulators_def map_of_accumulate)
  then have "v = month_revenue isof rows m"
    using revenue_get [of isof rows m] by (simp add: dict_get_def)
  with v show ?thesis
    by (simp add: trend_point_def bind_err_def dict_item_def month_label_observed [OF assms])
qed

lemma engagement_point_observed:
  assumes "m \<in> set (observed_months isof rows)"
  shows "engagement_point (accumulators isof rows) m
         = Inr (label_of m, py_round2 (month_engagement isof rows m))"
  by (simp add: engagement_point_def bind_err_def month_label_observed [OF assms] engagement_get)

lemma collect_trend:
  "collect (trend_point (accumulators isof rows)) (last_n n (observed_months isof rows))
     = Inr (map (\<lambda>m. (label_of m, py_round2 (month_revenue isof rows m)))
              (last_n n (observed_months isof rows)))"
  using set_last_n [of n "observed_months isof rows"]
  by (intro collect_map trend_point_observed) auto

lemma collect_engagement:
  "collect (engagement_point (accumulators isof rows)) (last_n n (observed_months isof rows))
     = Inr (map (\<lambda>m. (label_of m, py_round2 (month_engagement isof rows m)))
              (last_n n (observed_months isof rows)))"
  using set_last_n [of n "observed_months isof rows"]
  by (intro collect_map engagement_point_observed) auto

lemma analysis_eq:
  "analysis srt isof rows =
     (if list_all qty_ok rows
      then bind_err
             (int_truediv (total_quantity isof rows)
                (max 1 (int (length (observed_months isof rows)))))
             (\<lambda>avg_qty.
                Inr \<lparr>source = ''sheet'',
                     kpis =
                       \<lparr>totalRevenue = py_round2 (foldl fadd (Fin 0) (map amount_of rows)),
                        thisMonthRevenue = py_round2 (current_revenue isof rows),
                        avgGrowth =
                          py_round2
                            (growth_spec (current_revenue isof rows) (previous_revenue isof rows)),
                        avgQtyPerMonth = py_round2 avg_qty\<rparr>,
                     revenueTrend =
                       map (\<lambda>m. (label_of m, py_round2 (month_revenue isof rows m)))
                         (last_n 4 (observed_months isof rows)),
                     engagementTrend =
                       map (\<lambda>m. (label_of m, py_round2 (month_engagement isof rows m)))
                         (last_n 3 (observed_months isof rows)),
                     countrySales =
                       map (\<lambda>(k, v). (k, py_round2 v))
                         (sorted_desc srt (accumulate fadd (Fin 0) country_of amount_of rows)),
                     paymentDistribution =
                       sorted_desc_int (accumulate (+) 0 payment_of (\<lambda>r. 1) rows)\<rparr>)
      else Inl OverflowError)"
proof (cases "list_all qty_ok rows")
  case False
  then show ?thesis by (simp add: analysis_def aggregate_eq bind_err_def)
next
  case True
  have tr: "total_revenue (accumulators isof rows) = foldl fadd (Fin 0) (map amount_of rows)"
    by (simp add: accumulators_def)
  have cl: "country_list srt (accumulators isof rows) =
      map (\<lambda>(k, v). (k, py_round2 v))
        (sorted_desc srt (accumulate fadd (Fin 0) country_of amount_of rows))"
    by (simp add: country_list_def accumulators_def)
  have pl: "payment_list (accumulators isof rows) =
      sorted_desc_int (accumulate (+) 0 payment_of (\<lambda>r. 1) rows)"
    by (simp add: payment_list_def accumulators_def case_prod_unfold)
  show ?thesis
    using True
    by (simp add: analysis_def aggregate_eq avg_growth_eq avg_qty_eq this_month_revenue_eq
        last_month_revenue_eq valid_months_accumulators collect_trend collect_engagement
        tr cl pl bind_err_def split: sum.splits)
qed

lemma analysis_Inl:
  assumes "analysis srt isof rows = Inl e"
  shows "e = OverflowError"
proof (cases "list_all qty_ok rows")
  case False
  with assms show ?thesis by (simp add: analysis_eq)
next
  case True
  have "max 1 (int (length (observed_months isof rows))) \<noteq> 0" by (rule max_one_pos)
  from int_truediv_cases [OF this, of "total_quantity isof rows"] show ?thesis
  proof
    assume "\<exists>q. int_truediv (total_quantity isof rows)
                  (max 1 (int (length (observed_months isof rows)))) = Inr (Fin q)"
    then obtain q where "int_truediv (total_quantity isof rows)
                  (max 1 (int (length (observed_months isof rows)))) = Inr (Fin q)" ..
    with assms True show ?thesis by (simp add: analysis_eq bind_err_def)
  next
    assume "int_truediv (total_quantity isof rows)
              (max 1 (int (length (observed_months isof rows)))) = Inl OverflowError"
    with assms True show ?thesis by (simp add: analysis_eq bind_err_def)
  qed
qed

lemma analysis_source: "analysis srt isof rows = Inr res \<Longrightarrow> source res = ''sheet''"
  by (auto simp: analysis_eq bind_err_def split: if_splits sum.splits)

subsection \<open>Transport failures\<close>

lemma mixed_analysis:
  "analysis left_in_place iso_calendar_date (plain_reader mixed_csv) = Inr
     \<lparr>source = ''sheet'',
      kpis = \<lparr>totalRevenue = Fin 150, thisMonthRevenue = Fin 100, avgGrowth = Fin 0,
               avgQtyPerMonth = Fin 2\<rparr>,
      revenueTrend = [(''Jan'', Fin 100)],
      engagementTrend = [(''Jan'', Fin 1)],
      countrySales = [(''A'', Fin 100), (''B'', Fin 50)],
      paymentDistribution = [(''Cash'', 1), (''Card'', 1)]\<rparr>"
  by code_simp




lemma analysis_Inr:
  assumes "analysis srt isof rows = Inr res"
  shows "list_all qty_ok rows"
    and "\<exists>q. int_truediv (total_quantity isof rows)
                (max 1 (int (length (observed_months isof rows)))) = Inr q
             \<and> avgQtyPerMonth (kpis res) = py_round2 q"
    and "totalRevenue (kpis res) = py_round2 (foldl fadd (Fin 0) (map amount_of rows))"
    and "thisMonthRevenue (kpis res) = py_round2 (current_revenue isof rows)"
    and "avgGrowth (kpis res)
           = py_round2 (growth_spec (current_revenue isof rows) (previous_revenue isof rows))"
    and "revenueTrend res
           = map (\<lambda>m. (label_of m, py_round2 (month_revenue isof rows m)))
               (last_n 4 (observed_months isof rows))"
    and "engagementTrend res
           = map (\<lambda>m. (label_of m, py_round2 (month_engagement isof rows m)))
               (last_n 3 (observed_months isof rows))"
    and "countrySales res
           = map (\<lambda>(k, v). (k, py_round2 v))
               (sorted_desc srt (accumulate fadd (Fin 0) country_of amount_of rows))"
    and "paymentDistribution res
           = sorted_desc_int (accumulate (+) 0 payment_of (\<lambda>r. 1) rows)"
  using assms
  by (auto simp: analysis_eq bind_err_def split: if_splits sum.splits)

subsection \<open>Growth\<close>

lemma growth_rows_analysis:
  "analysis left_in_place iso_calendar_date growth_rows = Inr
     \<lparr>source = ''sheet'',
      kpis = \<lparr>totalRevenue = Fin 7, thisMonthRevenue = Fin 4,
               avgGrowth = Fin (2345390243441541 / 70368744177664),
               avgQtyPerMonth = Fin 0\<rparr>,
      revenueTrend = [(''Jan'', Fin 3), (''Feb'', Fin 4)],
      engagementTrend = [(''Jan'', Fin 0), (''Feb'', Fin 0)],
      countrySales = [(''Unknown'', Fin 7)],
      paymentDistribution = [(''Unknown'', 2)]\<rparr>"
  by code_simp

lemma growth_rows_revenues:
  "current_revenue iso_calendar_date growth_rows = Fin 4"
  "previous_revenue iso_calendar_date growth_rows = Fin 3"
  by code_simp+

lemma growth_rows_growth:
  "fmul (fquot (fsub (Fin 4) (Fin 3)) (Fin 3)) (Fin 100)
     = Fin (2345624805922133 / 70368744177664)"
  by code_simp

lemma one_month_revenues:
  "length (observed_months iso_calendar_date (plain_reader mixed_csv)) = 1"
  "previous_revenue iso_calendar_date (plain_reader mixed_csv) = Fin 0"
  by code_simp+

text \<open>
  C2 as stated fails for the field \<^verbatim>\<open>avgGrowth\<close> of the response, which is the growth
  rounded to two decimals: with a revenue of 3 in January and 4 in February the growth
  \<open>((4 - 3) / 3) * 100\<close> is the double 33.33333333333333, and the response carries the
  double 33.33.
\<close>

theorem growth_is_rounded_counterexample:
  "analysis left_in_place iso_calendar_date growth_rows = Inr
     \<lparr>source = ''sheet'',
      kpis = \<lparr>totalRevenue = Fin 7, thisMonthRevenue = Fin 4,
               avgGrowth = Fin (2345390243441541 / 70368744177664),
               avgQtyPerMonth = Fin 0\<rparr>,
      revenueTrend = [(''Jan'', Fin 3), (''Feb'', Fin 4)],
      engagementTrend = [(''Jan'', Fin 0), (''Feb'', Fin 0)],
      countrySales = [(''Unknown'', Fin 7)],
      paymentDistribution = [(''Unknown'', 2)]\<rparr>
   \<and> current_revenue iso_calendar_date growth_rows = Fin 4
   \<and> previous_revenue iso_calendar_date growth_rows = Fin 3
   \<and> fgt0 (Fin 3)
   \<and> fmul (fquot (fsub (Fin 4) (Fin 3)) (Fin 3)) (Fin 100)
       = Fin (2345624805922133 / 70368744177664)
   \<and> Fin (2345390243441541 / 70368744177664) \<noteq> Fin (2345624805922133 / 70368744177664)"
  using growth_rows_analysis growth_rows_revenues growth_rows_growth
  by (simp add: fgt0_def fpos_def)

text \<open>
  C2, amended. The local variable \<^verbatim>\<open>avg_growth\<close> is always a value: it is
  \<open>((current - previous) / previous) * 100\<close> in float arithmetic when the revenue of the
  previous month is greater than zero and 0 otherwise, where the current month is the last
  observed month and the previous month the one before it. The field \<^verbatim>\<open>avgGrowth\<close> of
  every response is that value rounded to two decimals; it is 0 when the revenue of the
  previous month is not greater than zero, which is the case when fewer than two months are
  observed. The analysis never raises \<^verbatim>\<open>ZeroDivisionError\<close>.
\<close>

theorem growth_percentage_rounded:
  "(aggregate isof rows = Inr a \<longrightarrow>
      this_month_revenue a = current_revenue isof rows
      \<and> last_month_revenue a = previous_revenue isof rows
      \<and> avg_growth a = Inr
          (if fgt0 (previous_revenue isof rows)
           then fmul (fquot (fsub (current_revenue isof rows) (previous_revenue isof rows))
                       (previous_revenue isof rows)) (Fin 100)
           else Fin 0))
   \<and> (analysis srt isof rows = Inr res \<and> fgt0 (previous_revenue isof rows) \<longrightarrow>
        avgGrowth (kpis res) =
          py_round2 (fmul (fquot (fsub (current_revenue isof rows) (previous_revenue isof rows))
                            (previous_revenue isof rows)) (Fin 100)))
   \<and> (analysis srt' isof' rows' = Inr res' \<and> \<not> fgt0 (previous_revenue isof' rows') \<longrightarrow>
        avgGrowth (kpis res') = Fin 0)
   \<and> (length (observed_months isof' rows') < 2 \<longrightarrow> previous_revenue isof' rows' = Fin 0)
   \<and> \<not> fgt0 (Fin 0)
   \<and> analysis srt isof rows \<noteq> Inl ZeroDivisionError"
proof (intro conjI impI)
  assume "aggregate isof rows = Inr a"
  then have a: "a = accumulators isof rows" by (rule aggregate_Inr)
  show "this_month_revenue a = current_revenue isof rows"
    unfolding a by (rule this_month_revenue_eq)
  show "last_month_revenue a = previous_revenue isof rows"
    unfolding a by (rule last_month_revenue_eq)
  show "avg_growth a = Inr
          (if fgt0 (previous_revenue isof rows)
           then fmul (fquot (fsub (current_revenue isof rows) (previous_revenue isof rows))
                       (previous_revenue isof rows)) (Fin 100)
           else Fin 0)"
    unfolding avg_growth_eq a this_month_revenue_eq last_month_revenue_eq
    by (simp add: growth_spec_def)
next
  assume "analysis srt isof rows = Inr res \<and> fgt0 (previous_revenue isof rows)"
  then have r: "analysis srt isof rows = Inr res" and p: "fgt0 (previous_revenue isof rows)"
    by simp_all
  show "avgGrowth (kpis res) =
          py_round2 (fmul (fquot (fsub (current_revenue isof rows) (previous_revenue isof rows))
                            (previous_revenue isof rows)) (Fin 100))"
    unfolding analysis_Inr(5) [OF r] by (simp add: growth_spec_def p)
next
  assume "analysis srt' isof' rows' = Inr res' \<and> \<not> fgt0 (previous_revenue isof' rows')"
  then have r: "analysis srt' isof' rows' = Inr res'"
    and p: "\<not> fgt0 (previous_revenue isof' rows')"
    by simp_all
  have z: "py_round2 (Fin 0) = Fin 0"
    by (simp add: py_round2_def round_half_even_def round_double_def)
  show "avgGrowth (kpis res') = Fin 0"
    unfolding analysis_Inr(5) [OF r] by (simp add: growth_spec_def p z)
next
  assume "length (observed_months isof' rows') < 2"
  then show "previous_revenue isof' rows' = Fin 0"
    by (simp add: previous_revenue_def)
next
  show "\<not> fgt0 (Fin 0)" by (simp add: fgt0_def fpos_def)
next
  show "analysis srt isof rows \<noteq> Inl ZeroDivisionError"
  proof
    assume "analysis srt isof rows = Inl ZeroDivisionError"
    then have "ZeroDivisionError = OverflowError" by (rule analysis_Inl)
    then show False by simp
  qed
qed

theorem growth_percentage_rounded_witness:
  "avg_growth (accumulators iso_calendar_date growth_rows)
     = Inr (Fin (2345624805922133 / 70368744177664))
   \<and> Fin (2345390243441541 / 70368744177664)
       = py_round2 (Fin (2345624805922133 / 70368744177664))
   \<and> avgGrowth (kpis
       \<lparr>source = ''sheet'',
        kpis = \<lparr>totalRevenue = Fin 150, thisMonthRevenue = Fin 100, avgGrowth = Fin 0,
                 avgQtyPerMonth = Fin 2\<rparr>,
        revenueTrend = [(''Jan'', Fin 100)],
        engagementTrend = [(''Jan'', Fin 1)],
        countrySales = [(''A'', Fin 100), (''B'', Fin 50)],
        paymentDistribution = [(''Cash'', 1 :: int), (''Card'', 1)]\<rparr>) = Fin 0
   \<and> previous_revenue iso_calendar_date (plain_reader mixed_csv) = Fin 0"
proof -
  note inst = growth_percentage_rounded
    [where isof = iso_calendar_date and rows = growth_rows
       and a = "accumulators iso_calendar_date growth_rows" and srt = left_in_place
       and srt' = left_in_place and isof' = iso_calendar_date
       and rows' = "plain_reader mixed_csv"]
  have q: "list_all qty_ok growth_rows" by code_simp
  then have a: "aggregate iso_calendar_date growth_rows
                  = Inr (accumulators iso_calendar_date growth_rows)"
    by (simp add: aggregate_eq)
  have p: "fgt0 (previous_revenue iso_calendar_date growth_rows)"
    by (simp add: growth_rows_revenues fgt0_def fpos_def)
  have n: "\<not> fgt0 (previous_revenue iso_calendar_date (plain_reader mixed_csv))"
    by (simp add: one_month_revenues fgt0_def fpos_def)
  have l: "length (observed_months iso_calendar_date (plain_reader mixed_csv)) < 2"
    by (simp add: one_month_revenues)
  from inst a p
  have "avg_growth (accumulators iso_calendar_date growth_rows) = Inr
          (fmul (fquot (fsub (current_revenue iso_calendar_date growth_rows)
                        (previous_revenue iso_calendar_date growth_rows))
                       (previous_revenue iso_calendar_date growth_rows)) (Fin 100))"
    by simp
  then have 1: "avg_growth (accumulators iso_calendar_date growth_rows)
                  = Inr (Fin (2345624805922133 / 70368744177664))"
    unfolding growth_rows_revenues growth_rows_growth .
  from inst growth_rows_analysis p
  have "avgGrowth (kpis
       \<lparr>source = ''sheet'',
      kpis = \<lparr>totalRevenue = Fin 7, thisMonthRevenue = Fin 4,
               avgGrowth = Fin (2345390243441541 / 70368744177664),
               avgQtyPerMonth = Fin 0\<rparr>,
      revenueTrend = [(''Jan'', Fin 3), (''Feb'', Fin 4)],
      engagementTrend = [(''Jan'', Fin 0), (''Feb'', Fin 0)],
      countrySales = [(''Unknown'', Fin 7)],
      paymentDistribution = [(''Unknown'', 2 :: int)]\<rparr>)
     = py_round2 (fmul (fquot (fsub (current_revenue iso_calendar_date growth_rows)
                        (previous_revenue iso_calendar_date growth_rows))
                       (previous_revenue iso_calendar_date growth_rows)) (Fin 100))"
    by blast
  then have 2: "Fin (2345390243441541 / 70368744177664)
       = py_round2 (Fin (2345624805922133 / 70368744177664))"
    unfolding growth_rows_revenues growth_rows_growth by simp
  from inst mixed_analysis n
  have 3: "avgGrowth (kpis
       \<lparr>source = ''sheet'',
        kpis = \<lparr>totalRevenue = Fin 150, thisMonthRevenue = Fin 100, avgGrowth = Fin 0,
                 avgQtyPerMonth = Fin 2\<rparr>,
        revenueTrend = [(''Jan'', Fin 100)],
        engagementTrend = [(''Jan'', Fin 1)],
        countrySales = [(''A'', Fin 100), (''B'', Fin 50)],
        paymentDistribution = [(''Cash'', 1 :: int), (''Card'', 1)]\<rparr>) = Fin 0"
    by blast
  from inst l have 4: "previous_revenue iso_calendar_date (plain_reader mixed_csv) = Fin 0"
    by blast
  from 1 2 3 4 show ?thesis by blast
qed

subsection \<open>Sheets without dates\<close>

lemma no_dates_no_months:
  assumes "list_all (\<lambda>r. invoice_date isof r = None) rows"
  shows "observed_months isof rows = []"
proof -
  have "set (observed_months isof rows) = {}"
    using assms by (auto simp: set_observed_months month_key_unknown_iff list_all_iff)
  then show ?thesis by simp
qed

lemma py_round2_zero: "py_round2 (Fin 0) = Fin 0"
  by (simp add: py_round2_def round_half_even_def round_double_def)

lemma int_truediv_zero: "int_truediv 0 1 = Inr (Fin 0)"
  by (simp add: int_truediv_def round_double_def)

lemma undated_analysis:
  assumes "list_all (\<lambda>r. invoice_date isof r = None) rows"
  shows "analysis srt isof rows =
     (if list_all qty_ok rows
      then Inr
        \<lparr>source = ''sheet'',
         kpis = \<lparr>totalRevenue = py_round2 (foldl fadd (Fin 0) (map amount_of rows)),
                  thisMonthRevenue = Fin 0, avgGrowth = Fin 0, avgQtyPerMonth = Fin 0\<rparr>,
         revenueTrend = [],
         engagementTrend = [],
         countrySales =
           map (\<lambda>(k, v). (k, py_round2 v))
             (sorted_desc srt (accumulate fadd (Fin 0) country_of amount_of rows)),
         paymentDistribution = sorted_desc_int (accumulate (+) 0 payment_of (\<lambda>r. 1) rows)\<rparr>
      else Inl OverflowError)"
proof -
  have m: "observed_months isof rows = []"
    using assms by (rule no_dates_no_months)
  have f: "\<not> fgt0 (Fin 0)" by (simp add: fgt0_def fpos_def)
  show ?thesis
    unfolding analysis_eq m
    by (simp add: total_quantity_def m current_revenue_def previous_revenue_def growth_spec_def
        f last_n_def int_truediv_zero py_round2_zero bind_err_def)
qed

lemma huge_quantity_rows:
  "length (plain_reader huge_quantity_csv) = 1"
  "map (invoice_date iso_calendar_date) (plain_reader huge_quantity_csv) = [None]"
  "get_analysis plain_reader iso_calendar_date left_in_place (Response 200 huge_quantity_csv)
     = Inl OverflowError"
  by code_simp+

lemma undated_rows:
  "plain_reader undated_csv \<noteq> []"
  "list_all (\<lambda>r. invoice_date iso_calendar_date r = None) (plain_reader undated_csv)"
  "list_all qty_ok (plain_reader undated_csv)"
  "py_round2 (foldl fadd (Fin 0) (map amount_of (plain_reader undated_csv))) = Fin 150"
  "map (\<lambda>(k, v). (k, py_round2 v))
     (sorted_desc left_in_place
        (accumulate fadd (Fin 0) country_of amount_of (plain_reader undated_csv)))
     = [(''A'', Fin 150)]"
  "sorted_desc_int (accumulate (+) 0 payment_of (\<lambda>r. 1) (plain_reader undated_csv))
     = [(''Cash'', 1), (''Card'', 1)]"
proof -
  have "length (plain_reader undated_csv) = 2" by code_simp
  then show "plain_reader undated_csv \<noteq> []" by auto
qed code_simp+

text \<open>
  C10 as stated fails: a sheet with one data row, whose date does not parse and whose
  quantity is a number of 310 digits, ends in \<^verbatim>\<open>OverflowError\<close> (\<^verbatim>\<open>to_float\<close> gives
  \<^verbatim>\<open>inf\<close> and \<^verbatim>\<open>int(inf)\<close> raises), not in a response.
\<close>

theorem undated_huge_quantity_counterexample:
  "length (plain_reader huge_quantity_csv) = 1
   \<and> map (invoice_date iso_calendar_date) (plain_reader huge_quantity_csv) = [None]
   \<and> get_analysis plain_reader iso_calendar_date left_in_place (Response 200 huge_quantity_csv)
       = Inl OverflowError"
  using huge_quantity_rows by simp

text \<open>
  C10, amended. When the sheet has at least one data row and no row has a date that
  parses, the endpoint returns a response with the source \<^verbatim>\<open>"sheet"\<close>, in which
  thisMonthRevenue, avgGrowth and avgQtyPerMonth are 0, both trends are empty, and
  totalRevenue, countrySales and paymentDistribution are computed from all rows, provided
  that the quantity of every row is within the range of a float; otherwise it raises
  \<^verbatim>\<open>OverflowError\<close>.
\<close>

theorem undated_sheet_still_succeeds:
  assumes "reader content \<noteq> []"
    and "list_all (\<lambda>r. invoice_date isof r = None) (reader content)"
  shows "get_analysis reader isof srt (Response 200 content) =
     (if list_all qty_ok (reader content)
      then Inr
        \<lparr>source = ''sheet'',
         kpis = \<lparr>totalRevenue =
                    py_round2 (foldl fadd (Fin 0) (map amount_of (reader content))),
                  thisMonthRevenue = Fin 0, avgGrowth = Fin 0, avgQtyPerMonth = Fin 0\<rparr>,
         revenueTrend = [],
         engagementTrend = [],
         countrySales =
           map (\<lambda>(k, v). (k, py_round2 v))
             (sorted_desc srt (accumulate fadd (Fin 0) country_of amount_of (reader content))),
         paymentDistribution =
           sorted_desc_int (accumulate (+) 0 payment_of (\<lambda>r. 1) (reader content))\<rparr>
      else Inl OverflowError)"
  using assms(1) undated_analysis [OF assms(2), of srt]
  by (simp add: get_analysis_def fetch_content_def Let_def)

theorem undated_sheet_still_succeeds_witness:
  "get_analysis plain_reader iso_calendar_date left_in_place (Response 200 undated_csv) = Inr
     \<lparr>source = ''sheet'',
      kpis = \<lparr>totalRevenue = Fin 150, thisMonthRevenue = Fin 0, avgGrowth = Fin 0,
               avgQtyPerMonth = Fin 0\<rparr>,
      revenueTrend = [],
      engagementTrend = [],
      countrySales = [(''A'', Fin 150)],
      paymentDistribution = [(''Cash'', 1), (''Card'', 1)]\<rparr>"
  using undated_sheet_still_succeeds
    [where reader = plain_reader and content = undated_csv and isof = iso_calendar_date
       and srt = left_in_place, OF undated_rows(1) undated_rows(2)]
  by (simp only: undated_rows if_True)

subsection \<open>Rows without a date\<close>

lemma dated_months: "observed_months isof (dated_rows isof rows) = observed_months isof rows"
proof -
  have "Set.filter (\<lambda>m. m \<noteq> ''unknown'') (month_key isof ` set (dated_rows isof rows))
          = Set.filter (\<lambda>m. m \<noteq> ''unknown'') (month_key isof ` set rows)"
    by (auto simp: dated_rows_def month_key_unknown_iff [symmetric])
  then show ?thesis by (simp add: observed_months_def)
qed

lemma unknown_not_observed: "''unknown'' \<notin> set (observed_months isof rows)"
  by (simp add: set_observed_months)

lemma dated_month_rows:
  assumes "m \<noteq> ''unknown''"
  shows "filter (\<lambda>r. month_key isof r = m) (dated_rows isof rows)
           = filter (\<lambda>r. month_key isof r = m) rows"
proof -
  have "\<And>r. (invoice_date isof r \<noteq> None \<and> month_key isof r = m) = (month_key isof r = m)"
    using assms by (auto simp: month_key_unknown_iff [symmetric])
  then show ?thesis by (simp add: dated_rows_def)
qed

lemma dated_month_values:
  assumes "m \<in> set (observed_months isof rows)"
  shows "month_revenue isof (dated_rows isof rows) m = month_revenue isof rows m"
    and "month_engagement isof (dated_rows isof rows) m = month_engagement isof rows m"
    and "month_quantity isof (dated_rows isof rows) m = month_quantity isof rows m"
proof -
  from assms have "m \<noteq> ''unknown''" using unknown_not_observed [of isof rows] by auto
  then have "filter (\<lambda>r. month_key isof r = m) (dated_rows isof rows)
           = filter (\<lambda>r. month_key isof r = m) rows"
    by (rule dated_month_rows)
  then show "month_revenue isof (dated_rows isof rows) m = month_revenue isof rows m"
    and "month_engagement isof (dated_rows isof rows) m = month_engagement isof rows m"
    and "month_quantity isof (dated_rows isof rows) m = month_quantity isof rows m"
    by (simp_all add: month_revenue_def month_engagement_def month_quantity_def)
qed

lemma dated_total_quantity:
  "total_quantity isof (dated_rows isof rows) = total_quantity isof rows"
  unfolding total_quantity_def dated_months
  by (rule arg_cong [where f = sum_list], rule map_cong [OF refl]) (rule dated_month_values)

lemma dated_current_revenue:
  "current_revenue isof (dated_rows isof rows) = current_revenue isof rows"
  by (simp add: current_revenue_def dated_months dated_month_values Let_def)

lemma dated_previous_revenue:
  "previous_revenue isof (dated_rows isof rows) = previous_revenue isof rows"
  by (simp add: previous_revenue_def dated_months dated_month_values Let_def)

lemma dated_qty_ok: "list_all qty_ok rows \<Longrightarrow> list_all qty_ok (dated_rows isof rows)"
  by (simp add: dated_rows_def list_all_iff)

lemma sum_list_indicator:
  "distinct ks \<Longrightarrow>
     sum_list (map (\<lambda>k. (if a = k then c else 0) + g k) ks)
       = (if a \<in> set ks then c else 0) + sum_list (map g ks :: int list)"
  by (induction ks) auto

lemma sum_list_by_key:
  assumes "distinct ks"
  shows "sum_list (map (\<lambda>k. sum_list (map f (filter (\<lambda>r. key r = k) rows))) ks)
           = sum_list (map f (filter (\<lambda>r. key r \<in> set ks) rows) :: int list)"
proof (induction rows)
  case Nil
  show ?case by simp
next
  case (Cons r rows)
  have "(\<lambda>k. sum_list (map f (filter (\<lambda>r. key r = k) (r # rows))))
          = (\<lambda>k. (if key r = k then f r else 0)
                   + sum_list (map f (filter (\<lambda>r. key r = k) rows)))"
    by (simp add: fun_eq_iff)
  then show ?case
    using Cons.IH sum_list_indicator [OF assms, of "key r" "f r"] by simp
qed

lemma total_quantity_dated:
  "total_quantity isof rows = sum_list (map qty_val (dated_rows isof rows))"
proof -
  have "\<And>r. r \<in> set rows \<Longrightarrow>
          (month_key isof r \<in> set (observed_months isof rows)) = (invoice_date isof r \<noteq> None)"
    by (auto simp: set_observed_months month_key_unknown_iff)
  then have "filter (\<lambda>r. month_key isof r \<in> set (observed_months isof rows)) rows
               = dated_rows isof rows"
    unfolding dated_rows_def by (intro filter_cong refl)
  then show ?thesis
    unfolding total_quantity_def month_quantity_def
    by (simp add: sum_list_by_key [OF sorted_observed_months(2)])
qed

lemma dated_mixed:
  "py_round2 (foldl fadd (Fin 0)
      (map amount_of (dated_rows iso_calendar_date (plain_reader mixed_csv)))) = Fin 100"
  "map (\<lambda>(k, v). (k, py_round2 v))
     (sorted_desc left_in_place (accumulate fadd (Fin 0) country_of amount_of
        (dated_rows iso_calendar_date (plain_reader mixed_csv)))) = [(''A'', Fin 100)]"
  "sorted_desc_int (accumulate (+) 0 payment_of (\<lambda>r. 1)
     (dated_rows iso_calendar_date (plain_reader mixed_csv))) = [(''Cash'', 1)]"
  "map qty_val (plain_reader mixed_csv) = [2, 7]"
  "map qty_val (dated_rows iso_calendar_date (plain_reader mixed_csv)) = [2]"
  by code_simp+

text \<open>
  C9. A row whose date cannot be read gets the month key \<^verbatim>\<open>"unknown"\<close>, which is never
  among the observed months. Its amount and its payment mode count: totalRevenue,
  countrySales and paymentDistribution are computed from all rows. Nothing else of the
  response depends on it: the analysis of the dated rows alone succeeds whenever the
  analysis of all rows does, and it returns the same response but for these three fields;
  so thisMonthRevenue, avgGrowth, avgQtyPerMonth, revenueTrend and engagementTrend are those
  of the dated rows, and the numerator of avgQtyPerMonth is the sum of the quantities of
  the dated rows.
\<close>

theorem undated_rows_count_for_totals_only:
  assumes "analysis srt isof rows = Inr res"
  shows "(month_key isof r = ''unknown'' \<longleftrightarrow> invoice_date isof r = None)
    \<and> ''unknown'' \<notin> set (observed_months isof rows)
    \<and> totalRevenue (kpis res) = py_round2 (foldl fadd (Fin 0) (map amount_of rows))
    \<and> countrySales res
        = map (\<lambda>(k, v). (k, py_round2 v))
            (sorted_desc srt (accumulate fadd (Fin 0) country_of amount_of rows))
    \<and> paymentDistribution res = sorted_desc_int (accumulate (+) 0 payment_of (\<lambda>r. 1) rows)
    \<and> analysis srt isof (dated_rows isof rows) = Inr
        (res\<lparr>kpis := (kpis res)\<lparr>totalRevenue :=
                  py_round2 (foldl fadd (Fin 0) (map amount_of (dated_rows isof rows)))\<rparr>,
             countrySales :=
               map (\<lambda>(k, v). (k, py_round2 v))
                 (sorted_desc srt
                    (accumulate fadd (Fin 0) country_of amount_of (dated_rows isof rows))),
             paymentDistribution :=
               sorted_desc_int
                 (accumulate (+) 0 payment_of (\<lambda>r. 1) (dated_rows isof rows))\<rparr>)
    \<and> bind_err (int_truediv (sum_list (map qty_val (dated_rows isof rows)))
                  (max 1 (int (length (observed_months isof rows)))))
         (\<lambda>q. Inr (py_round2 q)) = Inr (avgQtyPerMonth (kpis res))"
proof -
  note f = analysis_Inr [OF assms]
  from f(2) obtain q where
    q: "int_truediv (total_quantity isof rows)
          (max 1 (int (length (observed_months isof rows)))) = Inr q"
    and a: "avgQtyPerMonth (kpis res) = py_round2 q"
    by blast
  have s: "source res = ''sheet''" using assms by (rule analysis_source)
  have rt: "map (\<lambda>m. (label_of m, py_round2 (month_revenue isof (dated_rows isof rows) m)))
              (last_n 4 (observed_months isof rows))
            = map (\<lambda>m. (label_of m, py_round2 (month_revenue isof rows m)))
              (last_n 4 (observed_months isof rows))"
    using set_last_n [of 4 "observed_months isof rows"]
    by (intro map_cong refl) (auto simp: dated_month_values)
  have et: "map (\<lambda>m. (label_of m, py_round2 (month_engagement isof (dated_rows isof rows) m)))
              (last_n 3 (observed_months isof rows))
            = map (\<lambda>m. (label_of m, py_round2 (month_engagement isof rows m)))
              (last_n 3 (observed_months isof rows))"
    using set_last_n [of 3 "observed_months isof rows"]
    by (intro map_cong refl) (auto simp: dated_month_values)
  have d: "analysis srt isof (dated_rows isof rows) = Inr
        (res\<lparr>kpis := (kpis res)\<lparr>totalRevenue :=
                  py_round2 (foldl fadd (Fin 0) (map amount_of (dated_rows isof rows)))\<rparr>,
             countrySales :=
               map (\<lambda>(k, v). (k, py_round2 v))
                 (sorted_desc srt
                    (accumulate fadd (Fin 0) country_of amount_of (dated_rows isof rows))),
             paymentDistribution :=
               sorted_desc_int
                 (accumulate (+) 0 payment_of (\<lambda>r. 1) (dated_rows isof rows))\<rparr>)"
    unfolding analysis_eq [of srt isof "dated_rows isof rows"] dated_months dated_total_quantity
      dated_current_revenue dated_previous_revenue rt et q
    using dated_qty_ok [OF f(1), of isof] s a f(4) f(5) f(6) f(7)
    by (simp add: bind_err_def)
  have n: "bind_err (int_truediv (sum_list (map qty_val (dated_rows isof rows)))
                  (max 1 (int (length (observed_months isof rows)))))
         (\<lambda>q. Inr (py_round2 q)) = Inr (avgQtyPerMonth (kpis res))"
    unfolding total_quantity_dated [symmetric] q by (simp add: bind_err_def a)
  show ?thesis
    using month_key_unknown_iff [of isof r] unknown_not_observed [of isof rows] f(3) f(8) f(9)
      d n
    by blast
qed

theorem undated_rows_count_for_totals_only_witness:
  "analysis left_in_place iso_calendar_date
       (dated_rows iso_calendar_date (plain_reader mixed_csv)) = Inr
     \<lparr>source = ''sheet'',
      kpis = \<lparr>totalRevenue = Fin 100, thisMonthRevenue = Fin 100, avgGrowth = Fin 0,
               avgQtyPerMonth = Fin 2\<rparr>,
      revenueTrend = [(''Jan'', Fin 100)],
      engagementTrend = [(''Jan'', Fin 1)],
      countrySales = [(''A'', Fin 100)],
      paymentDistribution = [(''Cash'', 1)]\<rparr>
   \<and> Fin 150 = py_round2 (foldl fadd (Fin 0) (map amount_of (plain_reader mixed_csv)))"
  using undated_rows_count_for_totals_only [OF mixed_analysis]
  by (simp add: dated_mixed)

end
